theory Spec2Isabelle
  imports Complex_Main "HOL-Library.Sublist"
begin

section \<open>Python values, errors and containers\<close>

text \<open>
  The development embeds \<^verbatim>\<open>mosfit/modules/observables/filters.py\<close> (class
  \<^verbatim>\<open>Filters\<close>) and \<^verbatim>\<open>mosfit/modules/photospheres/tde_photosphere.py\<close>.
  Every exception the Python raises is a value \<open>Inl e\<close> of the result type.
\<close>

datatype error =
    ValueError | IndexError | KeyError | RuntimeError | IOError | AttributeError
  | ZeroDivisionError

definition bind_err :: "error + 'a \<Rightarrow> ('a \<Rightarrow> error + 'b) \<Rightarrow> error + 'b" where
  "bind_err m f = (case m of Inl e \<Rightarrow> Inl e | Inr x \<Rightarrow> f x)"

text \<open>\<^verbatim>\<open>xs[i]\<close> for an index that is never negative: IndexError out of range.\<close>

definition py_nth :: "'a list \<Rightarrow> nat \<Rightarrow> error + 'a" where
  "py_nth xs i = (if i < length xs then Inr (xs ! i) else Inl IndexError)"

text \<open>\<^verbatim>\<open>d[k]\<close> on a dictionary whose key \<open>k\<close> may be absent: KeyError.\<close>

definition py_key :: "'a option \<Rightarrow> error + 'a" where
  "py_key v = (case v of None \<Rightarrow> Inl KeyError | Some x \<Rightarrow> Inr x)"

text \<open>
  Python's \<^verbatim>\<open>a and b\<close> on results: \<open>b\<close> is not evaluated (and cannot raise) when
  \<open>a\<close> is false.
\<close>

definition py_and :: "error + bool \<Rightarrow> error + bool \<Rightarrow> error + bool" where
  "py_and a b = bind_err a (\<lambda>x. if x then b else Inr False)"

text \<open>\<^verbatim>\<open>a in b\<close> for two strings: \<open>a\<close> occurs in \<open>b\<close> as a contiguous substring.\<close>

fun str_in :: "string \<Rightarrow> string \<Rightarrow> bool" where
  "str_in xs [] = (xs = [])"
| "str_in xs (y # ys) = (prefix xs (y # ys) \<or> str_in xs ys)"

section \<open>The filter registry\<close>

text \<open>
  A band dictionary of \<^verbatim>\<open>filterrules.json\<close>: the keys the code reads or writes, each
  absent (\<open>None\<close>) or present. The dictionaries are objects: the rule table and the
  registry hold their addresses, and \<open>heap\<close> maps an address to the object's contents.
\<close>

record band =
  SVO :: "string option"
  path :: "string option"
  offset :: "real option"
  systems :: "string option"
  instruments :: "string option"
  bandsets :: "string option"
  name :: "string option"

type_synonym addr = nat

text \<open>
  IEEE special values of numpy's float64. Finite values are idealised as exact reals
  (no rounding, no overflow, no signed zero).
\<close>

datatype npfloat = Fin real | PInf | NInf | NaN

text \<open>
  The attributes of a \<^verbatim>\<open>Filters\<close> object that the class itself assigns, with the
  objects its registry refers to. The fields from \<open>bands\<close> on are assigned by
  \<^verbatim>\<open>process\<close> only; \<open>None\<close> is an attribute not yet set.
\<close>

record filters =
  preprocessed :: bool
  heap :: "addr \<Rightarrow> band"
  unique_bands :: "addr list"
  band_insts :: "string list"
  band_bsets :: "string list"
  band_systs :: "string list"
  band_names :: "string list"
  n_bands :: nat
  band_wavelengths :: "real list list"
  transmissions :: "real list list"
  min_waves :: "real list"
  max_waves :: "real list"
  filter_integrals :: "real list"
  band_offsets :: "npfloat list"
  bands :: "string list option"
  band_indices :: "nat list option"
  dxs :: "real list option"
  dist_const :: "npfloat option"
  luminosities :: "real list option"
  kw_systems :: "string list option"
  kw_instruments :: "string list option"
  kw_bandsets :: "string list option"

subsection \<open>\<^verbatim>\<open>find_band_index\<close>\<close>

text \<open>
  The four \<^verbatim>\<open>if\<close> conditions of the loop body, for the entry at position \<open>bi\<close>
  whose dictionary is at address \<open>a\<close>. Each is a chain of \<^verbatim>\<open>and\<close>.
\<close>

definition name_is :: "filters \<Rightarrow> addr \<Rightarrow> string \<Rightarrow> error + bool" where
  "name_is s a nm = bind_err (py_key (name (heap s a))) (\<lambda>v. Inr (nm = v))"

definition in_at :: "string \<Rightarrow> string list \<Rightarrow> nat \<Rightarrow> error + bool" where
  "in_at x col bi = bind_err (py_nth col bi) (\<lambda>v. Inr (str_in x v))"

definition cond1 :: "filters \<Rightarrow> nat \<Rightarrow> addr \<Rightarrow> string \<Rightarrow> string \<Rightarrow> string \<Rightarrow> string \<Rightarrow> error + bool" where
  "cond1 s bi a nm instrument bandset system =
     py_and (name_is s a nm) (py_and (in_at instrument (band_insts s) bi)
       (py_and (in_at bandset (band_bsets s) bi) (in_at system (band_systs s) bi)))"

definition cond2 :: "filters \<Rightarrow> nat \<Rightarrow> addr \<Rightarrow> string \<Rightarrow> string \<Rightarrow> string \<Rightarrow> error + bool" where
  "cond2 s bi a nm instrument system =
     py_and (name_is s a nm) (py_and (in_at instrument (band_insts s) bi)
       (in_at system (band_systs s) bi))"

definition cond3 :: "filters \<Rightarrow> nat \<Rightarrow> addr \<Rightarrow> string \<Rightarrow> string \<Rightarrow> error + bool" where
  "cond3 s bi a nm system = py_and (name_is s a nm) (in_at system (band_systs s) bi)"

definition cond4 :: "filters \<Rightarrow> nat \<Rightarrow> addr \<Rightarrow> string \<Rightarrow> error + bool" where
  "cond4 s bi a nm =
     py_and (name_is s a nm) (py_and (in_at '''' (band_insts s) bi)
       (py_and (in_at '''' (band_bsets s) bi) (in_at '''' (band_systs s) bi)))"

text \<open>
  The loop \<^verbatim>\<open>for bi, band in enumerate(self._unique_bands)\<close>: the four conditions are
  tried in turn on the same entry, each returning \<open>bi\<close>; after the last entry the
  function raises ValueError.
\<close>

fun find_from ::
  "filters \<Rightarrow> string \<Rightarrow> string \<Rightarrow> string \<Rightarrow> string \<Rightarrow> nat \<Rightarrow> addr list \<Rightarrow> error + nat" where
  "find_from s nm instrument bandset system bi [] = Inl ValueError"
| "find_from s nm instrument bandset system bi (a # as) =
     bind_err (cond1 s bi a nm instrument bandset system) (\<lambda>c1.
       if c1 then Inr bi else
     bind_err (cond2 s bi a nm instrument system) (\<lambda>c2.
       if c2 then Inr bi else
     bind_err (cond3 s bi a nm system) (\<lambda>c3.
       if c3 then Inr bi else
     bind_err (cond4 s bi a nm) (\<lambda>c4.
       if c4 then Inr bi else
     find_from s nm instrument bandset system (Suc bi) as))))"

definition find_band_index ::
  "filters \<Rightarrow> string \<Rightarrow> string \<Rightarrow> string \<Rightarrow> string \<Rightarrow> error + nat" where
  "find_band_index s nm instrument bandset system =
     find_from s nm instrument bandset system 0 (unique_bands s)"

text \<open>
  What \<^verbatim>\<open>__init__\<close> establishes about the registry: the per-entry lists are as long
  as the registry and every registered dictionary has a name.
\<close>

definition registry_ok :: "filters \<Rightarrow> bool" where
  "registry_ok s \<longleftrightarrow>
     length (band_insts s) = length (unique_bands s) \<and>
     length (band_bsets s) = length (unique_bands s) \<and>
     length (band_systs s) = length (unique_bands s) \<and>
     list_all (\<lambda>a. name (heap s a) \<noteq> None) (unique_bands s)"

text \<open>
  The four conditions of the loop body as truth values, for the entry at position \<open>bi\<close>
  of a registry whose lists are as long as it is: \<^verbatim>\<open>in\<close> on the strings of
  \<^verbatim>\<open>_band_insts\<close>, \<^verbatim>\<open>_band_bsets\<close> and \<^verbatim>\<open>_band_systs\<close> is the substring test, also in
  the fourth condition, where the string sought is the empty one.
\<close>

definition entry_name :: "filters \<Rightarrow> nat \<Rightarrow> string" where
  "entry_name s bi = the (name (heap s (unique_bands s ! bi)))"

definition test1 :: "filters \<Rightarrow> nat \<Rightarrow> string \<Rightarrow> string \<Rightarrow> string \<Rightarrow> string \<Rightarrow> bool" where
  "test1 s bi nm instrument bandset system \<longleftrightarrow>
     nm = entry_name s bi \<and> str_in instrument (band_insts s ! bi) \<and>
     str_in bandset (band_bsets s ! bi) \<and> str_in system (band_systs s ! bi)"

definition test2 :: "filters \<Rightarrow> nat \<Rightarrow> string \<Rightarrow> string \<Rightarrow> string \<Rightarrow> bool" where
  "test2 s bi nm instrument system \<longleftrightarrow>
     nm = entry_name s bi \<and> str_in instrument (band_insts s ! bi) \<and>
     str_in system (band_systs s ! bi)"

definition test3 :: "filters \<Rightarrow> nat \<Rightarrow> string \<Rightarrow> string \<Rightarrow> bool" where
  "test3 s bi nm system \<longleftrightarrow> nm = entry_name s bi \<and> str_in system (band_systs s ! bi)"

definition test4 :: "filters \<Rightarrow> nat \<Rightarrow> string \<Rightarrow> bool" where
  "test4 s bi nm \<longleftrightarrow>
     nm = entry_name s bi \<and> str_in '''' (band_insts s ! bi) \<and>
     str_in '''' (band_bsets s ! bi) \<and> str_in '''' (band_systs s ! bi)"

definition any_test :: "filters \<Rightarrow> nat \<Rightarrow> string \<Rightarrow> string \<Rightarrow> string \<Rightarrow> string \<Rightarrow> bool" where
  "any_test s bi nm instrument bandset system \<longleftrightarrow>
     test1 s bi nm instrument bandset system \<or> test2 s bi nm instrument system \<or>
     test3 s bi nm system \<or> test4 s bi nm"

text \<open>
  The four matching tiers as the specification words them. In the first three,
  membership of the request's value in the entry's is the program's \<^verbatim>\<open>in\<close>; the fourth
  is ``exact name match and the entry is the fully-unqualified (\<^verbatim>\<open>""\<close>) default for
  instrument, bandset and system'': the three values of the entry are the empty string.
\<close>

definition tier1 :: "filters \<Rightarrow> nat \<Rightarrow> string \<Rightarrow> string \<Rightarrow> string \<Rightarrow> string \<Rightarrow> bool" where
  "tier1 s bi nm instrument bandset system \<longleftrightarrow>
     nm = entry_name s bi \<and> str_in instrument (band_insts s ! bi) \<and>
     str_in bandset (band_bsets s ! bi) \<and> str_in system (band_systs s ! bi)"

definition tier2 :: "filters \<Rightarrow> nat \<Rightarrow> string \<Rightarrow> string \<Rightarrow> string \<Rightarrow> bool" where
  "tier2 s bi nm instrument system \<longleftrightarrow>
     nm = entry_name s bi \<and> str_in instrument (band_insts s ! bi) \<and>
     str_in system (band_systs s ! bi)"

definition tier3 :: "filters \<Rightarrow> nat \<Rightarrow> string \<Rightarrow> string \<Rightarrow> bool" where
  "tier3 s bi nm system \<longleftrightarrow> nm = entry_name s bi \<and> str_in system (band_systs s ! bi)"

definition tier4 :: "filters \<Rightarrow> nat \<Rightarrow> string \<Rightarrow> bool" where
  "tier4 s bi nm \<longleftrightarrow>
     nm = entry_name s bi \<and> band_insts s ! bi = '''' \<and> band_bsets s ! bi = '''' \<and>
     band_systs s ! bi = ''''"

definition any_tier :: "filters \<Rightarrow> nat \<Rightarrow> string \<Rightarrow> string \<Rightarrow> string \<Rightarrow> string \<Rightarrow> bool" where
  "any_tier s bi nm instrument bandset system \<longleftrightarrow>
     tier1 s bi nm instrument bandset system \<or> tier2 s bi nm instrument system \<or>
     tier3 s bi nm system \<or> tier4 s bi nm"

subsection \<open>Construction of the registry (\<^verbatim>\<open>__init__\<close>, first loop)\<close>

text \<open>
  A rule of \<^verbatim>\<open>filterrules.json\<close> as parsed by \<^verbatim>\<open>json.loads\<close>: each key may be
  absent. \<open>r_filters\<close> is the ordered dictionary from a filter name to the address of its
  band dictionary (every dictionary of the parsed document is an object of its own).
\<close>

record rule =
  r_systems :: "string list option"
  r_instruments :: "string list option"
  r_bandsets :: "string list option"
  r_filters :: "(string \<times> addr) list option"

text \<open>\<^verbatim>\<open>rule.get(key, default)\<close>.\<close>

definition get_or :: "'a option \<Rightarrow> 'a \<Rightarrow> 'a" where
  "get_or v d = (case v of None \<Rightarrow> d | Some x \<Rightarrow> x)"

definition sysinstperms :: "rule \<Rightarrow> (string \<times> string \<times> string) list" where
  "sysinstperms r =
     [(x, y, z). x \<leftarrow> get_or (r_systems r) [''''],
                 y \<leftarrow> get_or (r_instruments r) [''''],
                 z \<leftarrow> get_or (r_bandsets r) ['''']]"

text \<open>
  \<^verbatim>\<open>for perm in sysinstperms\<close>: the object \<^verbatim>\<open>rule['filters'][bnd]\<close> itself (address
  \<open>a\<close>) is appended, and the four assignments write into \<^verbatim>\<open>band_list[-1]\<close>, which is
  that same object.
\<close>

fun append_perms ::
  "addr \<Rightarrow> string \<Rightarrow> (string \<times> string \<times> string) list \<Rightarrow>
   addr list \<times> (addr \<Rightarrow> band) \<Rightarrow> addr list \<times> (addr \<Rightarrow> band)" where
  "append_perms a bnd [] (band_list, h) = (band_list, h)"
| "append_perms a bnd ((x, y, z) # perms) (band_list, h) =
     append_perms a bnd perms
       (band_list @ [a],
        h(last (band_list @ [a]) :=
            (h (last (band_list @ [a])))
              \<lparr>systems := Some x, instruments := Some y, bandsets := Some z, name := Some bnd\<rparr>))"

definition rule_step ::
  "string \<Rightarrow> rule \<Rightarrow> addr list \<times> (addr \<Rightarrow> band) \<Rightarrow> addr list \<times> (addr \<Rightarrow> band)" where
  "rule_step b r acc =
     fold (\<lambda>(bnd, a) acc'.
             if b = bnd \<or> b = '''' then append_perms a bnd (sysinstperms r) acc' else acc')
          (get_or (r_filters r) []) acc"

definition build_band_list ::
  "string list \<Rightarrow> rule list \<Rightarrow> (addr \<Rightarrow> band) \<Rightarrow> addr list \<times> (addr \<Rightarrow> band)" where
  "build_band_list bs filterrules h =
     fold (\<lambda>b. fold (rule_step b) filterrules) bs ([], h)"

text \<open>\<^verbatim>\<open>[f(x) for x in xs]\<close> where \<open>f\<close> may raise.\<close>

fun map_err :: "('a \<Rightarrow> error + 'b) \<Rightarrow> 'a list \<Rightarrow> error + 'b list" where
  "map_err f [] = Inr []"
| "map_err f (x # xs) =
     bind_err (f x) (\<lambda>y. bind_err (map_err f xs) (\<lambda>ys. Inr (y # ys)))"

text \<open>
  Lines 52 to 63: the registry and its per-entry lists, before any curve is loaded.
\<close>

definition init_registry ::
  "string list \<Rightarrow> rule list \<Rightarrow> (addr \<Rightarrow> band) \<Rightarrow> error + filters" where
  "init_registry bs filterrules h0 =
     (let (band_list, h) = build_band_list bs filterrules h0 in
      bind_err (map_err (\<lambda>a. py_key (instruments (h a))) band_list) (\<lambda>insts.
      bind_err (map_err (\<lambda>a. py_key (bandsets (h a))) band_list) (\<lambda>bsets.
      bind_err (map_err (\<lambda>a. py_key (systems (h a))) band_list) (\<lambda>systs.
      bind_err (map_err (\<lambda>a. py_key (name (h a))) band_list) (\<lambda>names.
      Inr \<lparr>preprocessed = False, heap = h, unique_bands = band_list,
           band_insts = insts, band_bsets = bsets, band_systs = systs, band_names = names,
           n_bands = length band_list,
           band_wavelengths = replicate (length band_list) [],
           transmissions = replicate (length band_list) [],
           min_waves = replicate (length band_list) 0,
           max_waves = replicate (length band_list) 0,
           filter_integrals = replicate (length band_list) 0,
           band_offsets = replicate (length band_list) (Fin 0),
           bands = None, band_indices = None, dxs = None, dist_const = None,
           luminosities = None, kw_systems = None, kw_instruments = None,
           kw_bandsets = None\<rparr>)))))"

section \<open>numpy arithmetic\<close>

text \<open>
  numpy's float operations do not raise: division by zero, the logarithm of a number
  that is not positive and a fractional power of a negative number yield the special
  values, which then propagate.
\<close>

fun xsub :: "npfloat \<Rightarrow> npfloat \<Rightarrow> npfloat" where
  "xsub NaN b = NaN"
| "xsub a NaN = NaN"
| "xsub (Fin a) (Fin b) = Fin (a - b)"
| "xsub (Fin a) PInf = NInf"
| "xsub (Fin a) NInf = PInf"
| "xsub PInf PInf = NaN"
| "xsub PInf b = PInf"
| "xsub NInf NInf = NaN"
| "xsub NInf b = NInf"

fun xmul :: "npfloat \<Rightarrow> npfloat \<Rightarrow> npfloat" where
  "xmul NaN b = NaN"
| "xmul a NaN = NaN"
| "xmul (Fin a) (Fin b) = Fin (a * b)"
| "xmul (Fin a) PInf = (if a = 0 then NaN else if 0 < a then PInf else NInf)"
| "xmul (Fin a) NInf = (if a = 0 then NaN else if 0 < a then NInf else PInf)"
| "xmul PInf (Fin b) = (if b = 0 then NaN else if 0 < b then PInf else NInf)"
| "xmul NInf (Fin b) = (if b = 0 then NaN else if 0 < b then NInf else PInf)"
| "xmul PInf PInf = PInf"
| "xmul PInf NInf = NInf"
| "xmul NInf PInf = NInf"
| "xmul NInf NInf = PInf"

fun xdiv :: "npfloat \<Rightarrow> npfloat \<Rightarrow> npfloat" where
  "xdiv NaN b = NaN"
| "xdiv a NaN = NaN"
| "xdiv (Fin a) (Fin b) =
     (if b = 0 then (if a = 0 then NaN else if 0 < a then PInf else NInf) else Fin (a / b))"
| "xdiv (Fin a) PInf = Fin 0"
| "xdiv (Fin a) NInf = Fin 0"
| "xdiv PInf (Fin b) = (if 0 \<le> b then PInf else NInf)"
| "xdiv NInf (Fin b) = (if 0 \<le> b then NInf else PInf)"
| "xdiv PInf b = NaN"
| "xdiv NInf b = NaN"

text \<open>\<^verbatim>\<open>np.log10\<close>.\<close>

fun xlog10 :: "npfloat \<Rightarrow> npfloat" where
  "xlog10 (Fin x) = (if 0 < x then Fin (log 10 x) else if x = 0 then NInf else NaN)"
| "xlog10 PInf = PInf"
| "xlog10 NInf = NaN"
| "xlog10 NaN = NaN"

text \<open>\<^verbatim>\<open>a < b\<close>: false whenever an operand is NaN.\<close>

fun xlt :: "npfloat \<Rightarrow> npfloat \<Rightarrow> bool" where
  "xlt NaN b = False"
| "xlt a NaN = False"
| "xlt (Fin a) (Fin b) = (a < b)"
| "xlt a PInf = (a \<noteq> PInf)"
| "xlt NInf b = (b \<noteq> NInf)"
| "xlt a b = False"

text \<open>
  \<^verbatim>\<open>np.trapz(y, x)\<close> and \<^verbatim>\<open>np.trapz(y, dx=dx)\<close>, as numpy computes them:
  \<^verbatim>\<open>d = diff(x)\<close> (or \<^verbatim>\<open>d = dx\<close>), then
  \<^verbatim>\<open>add.reduce(d * (y[1:] + y[:-1]) / 2.0)\<close>.
\<close>

definition np_diff :: "real list \<Rightarrow> real list" where
  "np_diff xs = map2 (\<lambda>b a. b - a) (tl xs) (butlast xs)"

definition pair_sums :: "real list \<Rightarrow> real list" where
  "pair_sums ys = map2 (\<lambda>b a. b + a) (tl ys) (butlast ys)"

definition np_trapz :: "real list \<Rightarrow> real list \<Rightarrow> real" where
  "np_trapz ys xs = sum_list (map2 (\<lambda>d p. d * p / 2) (np_diff xs) (pair_sums ys))"

definition np_trapz_dx :: "real list \<Rightarrow> real \<Rightarrow> real" where
  "np_trapz_dx ys dx = sum_list (map (\<lambda>p. dx * p / 2) (pair_sums ys))"

text \<open>
  \<^verbatim>\<open>np.interp(x, xp, fp)\<close> with the default \<^verbatim>\<open>left\<close> and \<^verbatim>\<open>right\<close>, for sample points
  \<open>xp\<close> in increasing order (numpy does not check the order and documents the result as
  meaningless otherwise). Below \<^verbatim>\<open>xp[0]\<close> the value is \<^verbatim>\<open>fp[0]\<close>, above \<^verbatim>\<open>xp[-1]\<close> it
  is \<^verbatim>\<open>fp[-1]\<close>; in between, with \<^verbatim>\<open>xp[j] <= x < xp[j+1]\<close>, it is \<^verbatim>\<open>fp[j]\<close> when
  \<^verbatim>\<open>x == xp[j]\<close> and \<^verbatim>\<open>slope*(x - xp[j]) + fp[j]\<close> otherwise.
\<close>

fun interp_scan :: "real \<Rightarrow> real list \<Rightarrow> real list \<Rightarrow> real" where
  "interp_scan x (x0 # x1 # xp) (f0 # f1 # fp) =
     (if x < x1 then (if x = x0 then f0 else (f1 - f0) / (x1 - x0) * (x - x0) + f0)
      else interp_scan x (x1 # xp) (f1 # fp))"
| "interp_scan x [x0] [f0] = f0"
| "interp_scan x xp fp = 0"

definition np_interp1 :: "real \<Rightarrow> real list \<Rightarrow> real list \<Rightarrow> real" where
  "np_interp1 x xp fp =
     (if last xp < x then last fp else if x < hd xp then hd fp else interp_scan x xp fp)"

definition np_interp :: "real list \<Rightarrow> real list \<Rightarrow> real list \<Rightarrow> error + real list" where
  "np_interp xs xp fp =
     (if xp = [] then Inl ValueError
      else if length fp \<noteq> length xp then Inl ValueError
      else Inr (map (\<lambda>x. np_interp1 x xp fp) xs))"

section \<open>Loading the curves (\<^verbatim>\<open>__init__\<close>, second loop)\<close>

text \<open>
  The files under \<^verbatim>\<open>filters/\<close>, by file name. A VOTable (\<^verbatim>\<open>.xml\<close>) is given by the
  values of its \<^verbatim>\<open>ZeroPoint\<close> parameters, in document order, and the rows of its first
  table; \<open>xml_files\<close> is the directory after the download attempt, so \<open>None\<close> is a file that
  was neither cached nor fetched. A curve file (\<^verbatim>\<open>.dat\<close>) is given by its rows of numeric
  fields, as \<^verbatim>\<open>csv.reader\<close> and \<^verbatim>\<open>float\<close> read them; writing a table and reading it back
  is idealised as the identity.
\<close>

record votable =
  zeropoints :: "real list"
  first_table :: "real list list"

record files =
  xml_files :: "string \<Rightarrow> votable option"
  dat_files :: "string \<Rightarrow> real list list option"

text \<open>\<^verbatim>\<open>s.split('/')\<close>, \<^verbatim>\<open>'/'.join(xs)\<close> and \<^verbatim>\<open>s.replace('/', '_')\<close>.\<close>

fun split_slash :: "string \<Rightarrow> string list" where
  "split_slash [] = [[]]"
| "split_slash (c # cs) =
     (if c = CHR ''/'' then [] # split_slash cs
      else (case split_slash cs of [] \<Rightarrow> [[c]] | w # ws \<Rightarrow> (c # w) # ws))"

fun join_slash :: "string list \<Rightarrow> string" where
  "join_slash [] = []"
| "join_slash [w] = w"
| "join_slash (w # ws) = w @ ''/'' @ join_slash ws"

definition replace_slash :: "string \<Rightarrow> string" where
  "replace_slash s = map (\<lambda>c. if c = CHR ''/'' then CHR ''_'' else c) s"

text \<open>
  \<^verbatim>\<open>a / b\<close> on two Python floats, as the values of the \<^verbatim>\<open>ZeroPoint\<close> parameters are:
  ZeroDivisionError for a divisor that is zero.
\<close>

definition py_div :: "real \<Rightarrow> real \<Rightarrow> error + real" where
  "py_div a b = (if b = 0 then Inl ZeroDivisionError else Inr (a / b))"

text \<open>
  Lines 103 to 110, for one VOTable: every \<^verbatim>\<open>ZeroPoint\<close> value is appended to
  \<open>zpfluxes\<close>, and for a system other than AB also
  \<^verbatim>\<open>2.5 * np.log10(zpfluxes[0] / zpfluxes[-1])\<close> to \<open>zps\<close>; the quotient is a division of
  Python floats, which raises for a zero point that is zero.
\<close>

fun zp_loop ::
  "string \<Rightarrow> real list \<Rightarrow> real list \<times> npfloat list \<Rightarrow> error + (real list \<times> npfloat list)" where
  "zp_loop sys [] (zpfluxes, zps) = Inr (zpfluxes, zps)"
| "zp_loop sys (v # vs) (zpfluxes, zps) =
     (if sys \<noteq> ''AB''
      then bind_err (py_div (hd (zpfluxes @ [v])) (last (zpfluxes @ [v])))
             (\<lambda>q. zp_loop sys vs (zpfluxes @ [v], zps @ [xmul (Fin (5 / 2)) (xlog10 (Fin q))]))
      else zp_loop sys vs (zpfluxes @ [v], zps))"

text \<open>
  Lines 75 to 82: the catalog path of the band in the system \<open>sys\<close>,
  \<^verbatim>\<open>'/'.join(band['SVO'].split('/')[:-1]) + '/' + sys\<close>, and the names of its curve
  file and of its VOTable under \<^verbatim>\<open>filters/\<close>.
\<close>

definition svopath :: "string \<Rightarrow> string \<Rightarrow> string" where
  "svopath svo sys = join_slash (butlast (split_slash svo)) @ ''/'' @ sys"

definition dat_name :: "string \<Rightarrow> string" where
  "dat_name p = replace_slash p @ ''.dat''"

definition xml_name :: "string \<Rightarrow> string" where
  "xml_name p = replace_slash p @ ''.xml''"

text \<open>
  Lines 74 to 121, \<^verbatim>\<open>for sys in systems\<close>: the state is \<open>zpfluxes\<close>, \<open>zps\<close>, the last
  \<open>path\<close> and the files. A VOTable that is missing raises RuntimeError; one that is
  there has its first table written to the curve file.
\<close>

fun svo_loop ::
  "string \<Rightarrow> string list \<Rightarrow> real list \<times> npfloat list \<times> string \<times> files \<Rightarrow>
   error + (real list \<times> npfloat list \<times> string \<times> files)" where
  "svo_loop svo [] st = Inr st"
| "svo_loop svo (sys # rest) (zpfluxes, zps, p, fs) =
     (case xml_files fs (xml_name (svopath svo sys)) of
        None \<Rightarrow> Inl RuntimeError
      | Some vo_tab \<Rightarrow>
          bind_err (zp_loop sys (zeropoints vo_tab) (zpfluxes, zps))
            (\<lambda>(zpfluxes', zps').
               svo_loop svo rest
                 (zpfluxes', zps', dat_name (svopath svo sys),
                  fs\<lparr>dat_files := (dat_files fs)(dat_name (svopath svo sys) \<mapsto>
                                      first_table vo_tab)\<rparr>)))"

text \<open>
  Lines 67 to 129 on the master: the rows of the curve and the zero points \<open>zps\<close> of one
  band dictionary. Opening a missing file raises (IOError).
\<close>

definition load_band :: "files \<Rightarrow> band \<Rightarrow> error + (real list list \<times> npfloat list \<times> files)" where
  "load_band fs b =
     bind_err
       (case SVO b of
          Some svo \<Rightarrow>
            (let photsystem = last (split_slash svo);
                 syss = (if photsystem \<in> set [''AB''] then [''AB''] else [''AB''] @ [photsystem])
             in bind_err (svo_loop svo syss ([], [Fin 0], [], fs))
                  (\<lambda>(zpfluxes, zps, p, fs'). Inr (p, zps, fs')))
        | None \<Rightarrow> bind_err (py_key (path b)) (\<lambda>p. Inr (p, [Fin 0], fs)))
       (\<lambda>(p, zps, fs').
          case dat_files fs' p of
            None \<Rightarrow> Inl IOError
          | Some file_rows \<Rightarrow> Inr (map (take 2) file_rows, zps, fs'))"

text \<open>
  \<^verbatim>\<open>a, b = list(map(list, zip(*rows)))\<close>: \<^verbatim>\<open>zip\<close> yields as many columns as the
  shortest row has fields (none for no rows), and the unpacking raises ValueError unless
  there are exactly two.
\<close>

definition n_columns :: "real list list \<Rightarrow> nat" where
  "n_columns rows = (case rows of [] \<Rightarrow> 0 | r # rs \<Rightarrow> fold min (map length rs) (length r))"

definition unzip_rows :: "real list list \<Rightarrow> error + (real list \<times> real list)" where
  "unzip_rows rows =
     (if n_columns rows = 2 then Inr (map (\<lambda>r. r ! 0) rows, map (\<lambda>r. r ! 1) rows)
      else Inl ValueError)"

text \<open>\<^verbatim>\<open>min(xs)\<close> and \<^verbatim>\<open>max(xs)\<close> of a list: ValueError when it is empty.\<close>

definition py_min :: "real list \<Rightarrow> error + real" where
  "py_min xs = (case xs of [] \<Rightarrow> Inl ValueError | x # r \<Rightarrow> Inr (fold min r x))"

definition py_max :: "real list \<Rightarrow> error + real" where
  "py_max xs = (case xs of [] \<Rightarrow> Inl ValueError | x # r \<Rightarrow> Inr (fold max r x))"

text \<open>
  Lines 137 to 147, on every process: the derived fields of entry \<open>i\<close> from the rows and
  the zero points. The offset keeps its initial \<open>0.0\<close> when the dictionary has neither
  an \<^verbatim>\<open>offset\<close> nor an \<^verbatim>\<open>SVO\<close> key.
\<close>

definition populate :: "filters \<Rightarrow> nat \<Rightarrow> band \<Rightarrow> real list list \<Rightarrow> npfloat list \<Rightarrow> error + filters" where
  "populate s i b rows zps =
     bind_err (unzip_rows rows) (\<lambda>(ws, ts).
     bind_err (py_min ws) (\<lambda>lo.
     bind_err (py_max ws) (\<lambda>hi.
       let s' = s\<lparr>band_wavelengths := (band_wavelengths s)[i := ws],
                   transmissions := (transmissions s)[i := ts],
                   min_waves := (min_waves s)[i := lo],
                   max_waves := (max_waves s)[i := hi],
                   filter_integrals := (filter_integrals s)[i := np_trapz ts ws]\<rparr>
       in case offset b of
            Some off \<Rightarrow> Inr (s'\<lparr>band_offsets := (band_offsets s')[i := Fin off]\<rparr>)
          | None \<Rightarrow>
              (case SVO b of
                 Some svo \<Rightarrow> Inr (s'\<lparr>band_offsets := (band_offsets s')[i := last zps]\<rparr>)
               | None \<Rightarrow> Inr s'))))"

text \<open>\<^verbatim>\<open>for i, band in enumerate(self._unique_bands)\<close>, from entry \<open>i\<close> on.\<close>

fun load_loop :: "files \<Rightarrow> filters \<Rightarrow> nat \<Rightarrow> addr list \<Rightarrow> error + (filters \<times> files)" where
  "load_loop fs s i [] = Inr (s, fs)"
| "load_loop fs s i (a # as) =
     bind_err (load_band fs (heap s a)) (\<lambda>(rows, zps, fs').
     bind_err (populate s i (heap s a) rows zps) (\<lambda>s'.
     load_loop fs' s' (Suc i) as))"

text \<open>
  \<^verbatim>\<open>Filters.__init__\<close> on the master process, from the requested bands (after
  \<^verbatim>\<open>listify\<close>), the parsed rule table with its objects, and the files.
\<close>

definition init :: "string list \<Rightarrow> rule list \<Rightarrow> (addr \<Rightarrow> band) \<Rightarrow> files \<Rightarrow> error + (filters \<times> files)" where
  "init bs filterrules h0 fs =
     bind_err (init_registry bs filterrules h0) (\<lambda>s. load_loop fs s 0 (unique_bands s))"

section \<open>The photometry engine (\<^verbatim>\<open>process\<close> and \<^verbatim>\<open>abmag\<close>)\<close>

text \<open>
  Modelled from the spec: \<^verbatim>\<open>MAG_FAC\<close> and \<^verbatim>\<open>FOUR_PI\<close> of \<^verbatim>\<open>mosfit.constants\<close>, which is
  not among the source files. The specification gives the magnitude scale as 2.5 and
  the distance term as \<open>log10(4\<pi>\<cdot>d\<^sup>2)\<close>.
\<close>

definition MAG_FAC :: real where
  "MAG_FAC = 5 / 2"

definition FOUR_PI :: real where
  "FOUR_PI = 4 * pi"

text \<open>
  The other two constants of \<^verbatim>\<open>mosfit.constants\<close> the module imports, whose values the
  specification does not fix, are parameters.
\<close>

record constants =
  AB_OFFSET :: real
  MPC_CGS :: real

text \<open>The keyword arguments \<^verbatim>\<open>process\<close> reads.\<close>

record batch =
  all_bands :: "string list"
  samplewavelengths :: "real list list"
  lumdist :: real
  arg_luminosities :: "real list"
  arg_systems :: "string list"
  arg_instruments :: "string list"
  arg_bandsets :: "string list"
  seds :: "real list list"

text \<open>
  Lines 172 to 174: \<^verbatim>\<open>self._dxs\<close> gets one entry per element of
  \<^verbatim>\<open>self._band_indices\<close>, in that order. The list is extended in place, so what was
  appended before an IndexError stays.
\<close>

fun dxs_loop :: "real list list \<Rightarrow> nat list \<Rightarrow> real list \<Rightarrow> error option \<times> real list" where
  "dxs_loop sw [] acc = (None, acc)"
| "dxs_loop sw (bi # bis) acc =
     (case bind_err (py_nth sw bi) (\<lambda>wavs.
           bind_err (py_nth wavs 1) (\<lambda>w1.
           bind_err (py_nth wavs 0) (\<lambda>w0. Inr (w1 - w0)))) of
        Inl e \<Rightarrow> (Some e, acc)
      | Inr d \<Rightarrow> dxs_loop sw bis (acc @ [d]))"

text \<open>
  The body of \<^verbatim>\<open>for li, lum in enumerate(self._luminosities)\<close> (lines 183 to 191), with
  \<open>bis\<close> the value of \<^verbatim>\<open>self._band_indices\<close> and \<open>ds\<close> that of \<^verbatim>\<open>self._dxs\<close>: the
  effective flux and the offset of observation \<open>li\<close>.
\<close>

definition eff_step ::
  "filters \<Rightarrow> batch \<Rightarrow> nat list \<Rightarrow> real list \<Rightarrow> nat \<Rightarrow> error + (npfloat \<times> npfloat)" where
  "eff_step s kw bis ds li =
     bind_err (py_nth bis li) (\<lambda>bi.
     bind_err (py_nth (band_offsets s) bi) (\<lambda>off.
     bind_err (py_nth (samplewavelengths kw) bi) (\<lambda>wavs.
     bind_err (py_nth (band_wavelengths s) bi) (\<lambda>xp.
     bind_err (py_nth (transmissions s) bi) (\<lambda>fp.
     bind_err (np_interp wavs xp fp) (\<lambda>itrans.
     bind_err (py_nth (seds kw) li) (\<lambda>sed.
     bind_err (py_nth ds bi) (\<lambda>dx.
     bind_err (py_nth (filter_integrals s) bi) (\<lambda>integral.
       Inr (xdiv (Fin (np_trapz_dx (map2 (\<lambda>x y. x * y) itrans sed) dx)) (Fin integral),
            off))))))))))"

fun eff_loop ::
  "filters \<Rightarrow> batch \<Rightarrow> nat list \<Rightarrow> real list \<Rightarrow> nat \<Rightarrow> real list \<Rightarrow>
   error + (npfloat list \<times> npfloat list)" where
  "eff_loop s kw bis ds li [] = Inr ([], [])"
| "eff_loop s kw bis ds li (lum # lums) =
     bind_err (eff_step s kw bis ds li) (\<lambda>(f, off).
     bind_err (eff_loop s kw bis ds (Suc li) lums) (\<lambda>(eff_fluxes, offsets).
       Inr (f # eff_fluxes, off # offsets)))"

text \<open>
  \<^verbatim>\<open>abmag\<close>: \<^verbatim>\<open>self._dist_const\<close> is read only for a flux that is not zero
  (AttributeError if \<^verbatim>\<open>process\<close> has not set it).
\<close>

definition abmag1 :: "constants \<Rightarrow> filters \<Rightarrow> npfloat \<times> npfloat \<Rightarrow> error + npfloat" where
  "abmag1 c s xy =
     (case xy of (x, y) \<Rightarrow>
        if x = Fin 0 then Inr PInf
        else (case dist_const s of
                None \<Rightarrow> Inl AttributeError
              | Some dc \<Rightarrow>
                  Inr (xsub (xsub (Fin (AB_OFFSET c)) y)
                         (xmul (Fin MAG_FAC) (xsub (xlog10 x) dc)))))"

definition abmag :: "constants \<Rightarrow> filters \<Rightarrow> npfloat list \<Rightarrow> npfloat list \<Rightarrow> error + npfloat list" where
  "abmag c s eff_fluxes offsets = map_err (abmag1 c s) (zip eff_fluxes offsets)"

text \<open>
  \<^verbatim>\<open>process\<close>: the result (the value of \<^verbatim>\<open>'model_magnitudes'\<close>, or the exception) and
  the object afterwards.
\<close>

definition process :: "constants \<Rightarrow> filters \<Rightarrow> batch \<Rightarrow> (error + npfloat list) \<times> filters" where
  "process c s kw =
     (let s1 = s\<lparr>bands := Some (all_bands kw)\<rparr> in
      case map_err (\<lambda>b. find_band_index s1 b '''' '''' '''') (all_bands kw) of
        Inl e \<Rightarrow> (Inl e, s1)
      | Inr bis \<Rightarrow>
          (let s2 = s1\<lparr>band_indices := Some bis\<rparr>;
               (err, ds) = dxs_loop (samplewavelengths kw) bis [];
               s3 = s2\<lparr>dxs := Some ds\<rparr>
           in case err of
                Some e \<Rightarrow> (Inl e, s3)
              | None \<Rightarrow>
                  (let s4 = s3\<lparr>dist_const :=
                                  Some (xlog10 (Fin (FOUR_PI * (lumdist kw * MPC_CGS c)\<^sup>2))),
                                luminosities := Some (arg_luminosities kw),
                                kw_systems := Some (arg_systems kw),
                                kw_instruments := Some (arg_instruments kw),
                                kw_bandsets := Some (arg_bandsets kw)\<rparr>
                   in (bind_err (eff_loop s4 kw bis ds 0 (arg_luminosities kw))
                         (\<lambda>(eff_fluxes, offsets). abmag c s4 eff_fluxes offsets),
                       s4))))"

text \<open>The registry: every field of the object but those \<^verbatim>\<open>process\<close> assigns.\<close>

definition registry ::
  "filters \<Rightarrow> (addr \<Rightarrow> band) \<times> addr list \<times> string list \<times> string list \<times> string list \<times>
     string list \<times> nat \<times> real list list \<times> real list list \<times> real list \<times> real list \<times>
     real list \<times> npfloat list" where
  "registry s =
     (heap s, unique_bands s, band_insts s, band_bsets s, band_systs s, band_names s,
      n_bands s, band_wavelengths s, transmissions s, min_waves s, max_waves s,
      filter_integrals s, band_offsets s)"

section \<open>The TDE photosphere (\<^verbatim>\<open>tde_photosphere.process\<close>)\<close>

text \<open>
  \<^verbatim>\<open>x ** y\<close> on numpy floats for a finite exponent, as C's \<^verbatim>\<open>pow\<close>: 1 for a zero
  exponent, NaN for a negative base with a fractional exponent.
\<close>

definition xpow :: "npfloat \<Rightarrow> real \<Rightarrow> npfloat" where
  "xpow b y =
     (if y = 0 then Fin 1
      else case b of
        NaN \<Rightarrow> NaN
      | Fin x \<Rightarrow>
          (if 0 < x then Fin (x powr y)
           else if x = 0 then (if 0 < y then Fin 0 else PInf)
           else if y = of_int \<lfloor>y\<rfloor>
                then Fin ((if even \<lfloor>y\<rfloor> then 1 else - 1) * ((- x) powr y))
                else NaN)
      | PInf \<Rightarrow> (if 0 < y then PInf else Fin 0)
      | NInf \<Rightarrow>
          (if 0 < y then (if y = of_int \<lfloor>y\<rfloor> \<and> odd \<lfloor>y\<rfloor> then NInf else PInf)
           else Fin 0))"

text \<open>
  The physical constants the module imports from \<^verbatim>\<open>astropy\<close> and
  \<^verbatim>\<open>mosfit.constants\<close>, as parameters: \<^verbatim>\<open>c.G.cgs.value\<close>, \<^verbatim>\<open>M_SUN_CGS\<close>, \<^verbatim>\<open>C_CGS\<close>,
  \<^verbatim>\<open>DAY_CGS\<close> and \<^verbatim>\<open>STEF_CONST\<close>. The model divides by \<^verbatim>\<open>C_CGS * C_CGS\<close> as a real
  number, which is the program's division for a speed of light that is not zero.
\<close>

record tde_constants =
  G_CGS :: real
  M_SUN_CGS :: real
  C_CGS :: real
  DAY_CGS :: real
  STEF_CONST :: real

text \<open>
  The keyword arguments the function reads, after \<^verbatim>\<open>prepare_input\<close>. The star's mass
  and radius are stored on the object and not used.
\<close>

record tde_input =
  rest_times :: "real list"
  bhmass :: real
  starmass :: real
  lphoto :: real
  Rph0 :: real
  tde_luminosities :: "real list"
  Rstar :: real

text \<open>\<^verbatim>\<open>np.argmax\<close>: the first index of the maximum, ValueError on an empty array.\<close>

fun argmax_scan :: "real list \<Rightarrow> nat \<Rightarrow> nat \<Rightarrow> real \<Rightarrow> nat" where
  "argmax_scan [] i best_i best = best_i"
| "argmax_scan (x # xs) i best_i best =
     (if best < x then argmax_scan xs (Suc i) i x else argmax_scan xs (Suc i) best_i best)"

definition np_argmax :: "real list \<Rightarrow> error + nat" where
  "np_argmax xs = (case xs of [] \<Rightarrow> Inl ValueError | x # r \<Rightarrow> Inr (argmax_scan r 1 0 x))"

text \<open>
  \<^verbatim>\<open>np.where(a > b, b, a)\<close> on two one-dimensional arrays: they broadcast when they
  have the same length or one has length 1, and the call raises ValueError otherwise.
\<close>

definition broadcast2 :: "'a list \<Rightarrow> 'b list \<Rightarrow> error + ('a \<times> 'b) list" where
  "broadcast2 a b =
     (if length a = length b then Inr (zip a b)
      else if length a = 1 then Inr (zip (replicate (length b) (hd a)) b)
      else if length b = 1 then Inr (zip a (replicate (length a) (hd b)))
      else Inl ValueError)"

definition np_where_gt :: "npfloat list \<Rightarrow> npfloat list \<Rightarrow> error + npfloat list" where
  "np_where_gt a b =
     bind_err (broadcast2 a b) (\<lambda>ps. Inr (map (\<lambda>(x, m). if xlt m x then m else x) ps))"

definition kappa_t :: real where
  "kappa_t = 2 / 10 * (1 + 74 / 100)"

definition Ledd :: "tde_constants \<Rightarrow> real \<Rightarrow> real" where
  "Ledd c Mh = 4 * pi * G_CGS c * Mh * M_SUN_CGS c * C_CGS c / kappa_t"

definition r_isco :: "tde_constants \<Rightarrow> real \<Rightarrow> real" where
  "r_isco c Mh = 6 * G_CGS c * Mh * M_SUN_CGS c / (C_CGS c * C_CGS c)"

text \<open>
  The semi-major axis \<^verbatim>\<open>(G * Mh * M_SUN_CGS * ((t - t0) * DAY_CGS / np.pi)**2)**(1. / 3.)\<close>
  of lines 53 and 59.
\<close>

definition semi_major :: "tde_constants \<Rightarrow> real \<Rightarrow> real \<Rightarrow> real \<Rightarrow> npfloat" where
  "semi_major c Mh t t0 =
     xpow (Fin (G_CGS c * Mh * M_SUN_CGS c * ((t - t0) * DAY_CGS c / pi)\<^sup>2)) (1 / 3)"

text \<open>Line 70, one element: \<^verbatim>\<open>(Rph_0 * a_p * L / Ledd) ** l\<close>.\<close>

definition power_law :: "real \<Rightarrow> npfloat \<Rightarrow> real \<Rightarrow> real \<Rightarrow> real \<Rightarrow> npfloat" where
  "power_law Rph_0 a_p ledd l L = xpow (xdiv (xmul (xmul (Fin Rph_0) a_p) (Fin L)) (Fin ledd)) l"

text \<open>Line 72, one element: \<^verbatim>\<open>rphot2[rphot2 < rphotmin] = rphotmin\<close>.\<close>

definition clamp_below :: "real \<Rightarrow> npfloat \<Rightarrow> npfloat" where
  "clamp_below rphotmin r = (if xlt r (Fin rphotmin) then Fin rphotmin else r)"

text \<open>Line 80, one element: \<^verbatim>\<open>(L / (rphot**2 * STEF_CONST))**0.25\<close>.\<close>

definition temperature :: "tde_constants \<Rightarrow> real \<Rightarrow> npfloat \<Rightarrow> npfloat" where
  "temperature c L r = xpow (xdiv (Fin L) (xmul (xpow r 2) (Fin (STEF_CONST c)))) (1 / 4)"

text \<open>Line 38: the number of luminosities that are not positive.\<close>

definition ilumzero :: "real list \<Rightarrow> nat" where
  "ilumzero lums = length (filter (\<lambda>L. L \<le> 0) lums)"

text \<open>
  The function, with \<^verbatim>\<open>TESTING\<close> false: \<^verbatim>\<open>radiusphot\<close> and \<^verbatim>\<open>temperaturephot\<close>. The
  result of \<^verbatim>\<open>np.where\<close> on line 73 is bound to nothing; the call can still raise.
\<close>

definition tde_process :: "tde_constants \<Rightarrow> tde_input \<Rightarrow> error + (npfloat list \<times> npfloat list)" where
  "tde_process c kw =
     (let times = rest_times kw;
          Mh = bhmass kw;
          l = lphoto kw;
          Rph_0 = 10 powr Rph0 kw;
          lums = tde_luminosities kw
      in bind_err (np_argmax lums) (\<lambda>imax.
         bind_err (py_nth times imax) (\<lambda>tpeak.
           let ilz = ilumzero lums;
               rphotmin = r_isco c Mh
           in if ilz = length lums
              then Inr (replicate (length lums) (Fin rphotmin), replicate (length lums) (Fin 0))
              else
                bind_err (py_nth times ilz) (\<lambda>t0.
                  let a_p = semi_major c Mh tpeak t0;
                      a_t = map (\<lambda>t. semi_major c Mh t t0) (drop ilz times);
                      rphotmax = map (xmul (Fin 2)) a_t;
                      rphot1 = replicate ilz (Fin rphotmin);
                      rphot2 = map (clamp_below rphotmin)
                                 (map (power_law Rph_0 a_p (Ledd c Mh) l) (drop ilz lums))
                  in bind_err (np_where_gt rphot2 rphotmax) (\<lambda>unused.
                     bind_err (broadcast2 lums (rphot1 @ rphot2)) (\<lambda>ps.
                       Inr (rphot1 @ rphot2, map (\<lambda>(L, r). temperature c L r) ps)))))))"

text \<open>The two entries of the returned dictionary.\<close>

definition radiusphot :: "tde_constants \<Rightarrow> tde_input \<Rightarrow> error + npfloat list" where
  "radiusphot c kw = bind_err (tde_process c kw) (\<lambda>(rphot, Tphot). Inr rphot)"

definition temperaturephot :: "tde_constants \<Rightarrow> tde_input \<Rightarrow> error + npfloat list" where
  "temperaturephot c kw = bind_err (tde_process c kw) (\<lambda>(rphot, Tphot). Inr Tphot)"

section \<open>Invariants and example inputs\<close>

text \<open>
  Every dictionary the first loop of \<^verbatim>\<open>__init__\<close> has appended carries the four keys
  the loop assigns.
\<close>

definition keyed :: "addr list \<times> (addr \<Rightarrow> band) \<Rightarrow> bool" where
  "keyed acc \<longleftrightarrow>
     list_all (\<lambda>a. name (snd acc a) \<noteq> None \<and> systems (snd acc a) \<noteq> None \<and>
                   instruments (snd acc a) \<noteq> None \<and> bandsets (snd acc a) \<noteq> None) (fst acc)"

text \<open>A band dictionary \<^verbatim>\<open>{"path": p}\<close> as parsed, and a heap holding it everywhere.\<close>

definition path_band :: "string \<Rightarrow> band" where
  "path_band p = \<lparr>SVO = None, path = Some p, offset = None, systems = None,
     instruments = None, bandsets = None, name = None\<rparr>"

definition plain_heap :: "addr \<Rightarrow> band" where
  "plain_heap = (\<lambda>a. path_band ''V.dat'')"

text \<open>
  The rules \<^verbatim>\<open>{"filters": {"V": {...}}}\<close>,
  \<^verbatim>\<open>{"systems": ["AB"], "instruments": ["X"], "filters": {"V": {...}}}\<close> and
  \<^verbatim>\<open>{"systems": ["AB", "Vega"], "filters": {"V": {...}}}\<close>.
\<close>

definition rule_default :: rule where
  "rule_default = \<lparr>r_systems = None, r_instruments = None, r_bandsets = None,
     r_filters = Some [(''V'', 0)]\<rparr>"

definition rule_qualified :: rule where
  "rule_qualified = \<lparr>r_systems = Some [''AB''], r_instruments = Some [''X''],
     r_bandsets = None, r_filters = Some [(''V'', 1)]\<rparr>"

definition rule_two_systems :: rule where
  "rule_two_systems = \<lparr>r_systems = Some [''AB'', ''Vega''], r_instruments = None,
     r_bandsets = None, r_filters = Some [(''V'', 0)]\<rparr>"

text \<open>
  The trapezoidal area under a sampled curve, as the specification words it: the sum
  over consecutive samples of the step times the mean of the two values.
\<close>

definition trapezoid_area :: "real list \<Rightarrow> real list \<Rightarrow> real" where
  "trapezoid_area xs ys =
     (\<Sum>i < length xs - 1. (xs ! (i + 1) - xs ! i) * (ys ! i + ys ! (i + 1)) / 2)"

text \<open>The derived fields of entry \<open>i\<close>, and the lengths of the per-entry lists.\<close>

definition entry :: "filters \<Rightarrow> nat \<Rightarrow> real list \<times> real list \<times> real \<times> real \<times> real \<times> npfloat" where
  "entry s i = (band_wavelengths s ! i, transmissions s ! i, min_waves s ! i, max_waves s ! i,
     filter_integrals s ! i, band_offsets s ! i)"

definition sized :: "filters \<Rightarrow> nat \<Rightarrow> bool" where
  "sized s n \<longleftrightarrow> length (unique_bands s) = n \<and> length (band_wavelengths s) = n \<and>
     length (transmissions s) = n \<and> length (min_waves s) = n \<and> length (max_waves s) = n \<and>
     length (filter_integrals s) = n \<and> length (band_offsets s) = n"

text \<open>
  The three-way priority of the offset as the specification words it: the configured
  offset, else the last zero point for a catalog source, else 0.
\<close>

definition resolved_offset :: "band \<Rightarrow> npfloat list \<Rightarrow> npfloat" where
  "resolved_offset b zps =
     (case offset b of Some off \<Rightarrow> Fin off
      | None \<Rightarrow> (case SVO b of Some svo \<Rightarrow> last zps | None \<Rightarrow> Fin 0))"

text \<open>The derived fields that the rows and zero points of a band determine.\<close>

definition entry_of :: "band \<Rightarrow> real list list \<Rightarrow> npfloat list \<Rightarrow>
    real list \<times> real list \<times> real \<times> real \<times> real \<times> npfloat" where
  "entry_of b rows zps =
     (map (\<lambda>r. r ! 0) rows, map (\<lambda>r. r ! 1) rows, Min (set (map (\<lambda>r. r ! 0) rows)),
      Max (set (map (\<lambda>r. r ! 0) rows)),
      np_trapz (map (\<lambda>r. r ! 1) rows) (map (\<lambda>r. r ! 0) rows), resolved_offset b zps)"

text \<open>The fields the first loop of \<^verbatim>\<open>__init__\<close> sets and the second leaves alone.\<close>

definition registry_names ::
  "filters \<Rightarrow> (addr \<Rightarrow> band) \<times> addr list \<times> string list \<times> string list \<times> string list \<times>
     string list \<times> nat" where
  "registry_names s =
     (heap s, unique_bands s, band_insts s, band_bsets s, band_systs s, band_names s, n_bands s)"

text \<open>
  Entry \<open>i\<close> holds what loading its dictionary gave, from files whose VOTables are \<open>X\<close>.
\<close>

definition loaded :: "(string \<Rightarrow> votable option) \<Rightarrow> filters \<Rightarrow> nat \<Rightarrow> bool" where
  "loaded X s i \<longleftrightarrow>
     (\<exists>fsa rows zps fsb. xml_files fsa = X \<and>
        load_band fsa (heap s (unique_bands s ! i)) = Inr (rows, zps, fsb) \<and>
        n_columns rows = 2 \<and>
        entry s i = entry_of (heap s (unique_bands s ! i)) rows zps)"

text \<open>
  A rule with four filters: \<open>U\<close> with a local curve and a configured offset, \<open>B\<close> from
  the catalog in the AB system, \<open>V\<close> from the catalog in the Vega system, and \<open>R\<close> with a
  local curve; and a directory with the VOTables and the local curve file.
\<close>

definition catalog_band :: "string \<Rightarrow> band" where
  "catalog_band p = \<lparr>SVO = Some p, path = None, offset = None, systems = None,
     instruments = None, bandsets = None, name = None\<rparr>"

definition catalog_heap :: "addr \<Rightarrow> band" where
  "catalog_heap =
     (\<lambda>a. path_band ''V.dat'')
       (0 := (path_band ''V.dat'')\<lparr>offset := Some (1 / 2)\<rparr>,
        1 := catalog_band ''F/B/AB'',
        2 := catalog_band ''F/V/Vega'')"

definition rule_catalog :: rule where
  "rule_catalog = \<lparr>r_systems = None, r_instruments = None, r_bandsets = None,
     r_filters = Some [(''U'', 0), (''B'', 1), (''V'', 2), (''R'', 3)]\<rparr>"

definition catalog_files :: files where
  "catalog_files =
     \<lparr>xml_files =
        [''F_B_AB.xml'' \<mapsto> \<lparr>zeropoints = [50], first_table = [[1, 0], [2, 1]]\<rparr>,
         ''F_V_AB.xml'' \<mapsto> \<lparr>zeropoints = [100], first_table = [[1, 0], [2, 1]]\<rparr>,
         ''F_V_Vega.xml'' \<mapsto> \<lparr>zeropoints = [10], first_table = [[1, 0], [2, 1], [4, 1]]\<rparr>],
      dat_files = [''V.dat'' \<mapsto> [[1, 0], [2, 1], [4, 1, 7]]]\<rparr>"

text \<open>A directory with one local curve file.\<close>

definition curve_files :: files where
  "curve_files =
     \<lparr>xml_files = Map.empty, dat_files = [''V.dat'' \<mapsto> [[1, 0], [2, 1], [4, 1, 7]]]\<rparr>"

text \<open>
  The rule \<^verbatim>\<open>{"filters": {"A": {...}, "B": {...}}}\<close>, a directory whose curve file is
  flat at 1 over \<open>[0, 10]\<close>, and the objects after \<^verbatim>\<open>__init__\<close> for one band \<open>V\<close> (curve
  \<open>(1, 0), (2, 1), (4, 1)\<close>) and for the two bands \<open>A\<close> and \<open>B\<close> (flat curves).
\<close>

definition rule_two_filters :: rule where
  "rule_two_filters = \<lparr>r_systems = None, r_instruments = None, r_bandsets = None,
     r_filters = Some [(''A'', 0), (''B'', 1)]\<rparr>"

definition flat_files :: files where
  "flat_files = \<lparr>xml_files = Map.empty, dat_files = [''V.dat'' \<mapsto> [[0, 1], [10, 1]]]\<rparr>"

definition named_band :: "string \<Rightarrow> band" where
  "named_band n = \<lparr>SVO = None, path = Some ''V.dat'', offset = None, systems = Some '''',
     instruments = Some '''', bandsets = Some '''', name = Some n\<rparr>"

definition one_band :: filters where
  "one_band =
     \<lparr>preprocessed = False, heap = plain_heap(0 := named_band ''V''),
      unique_bands = [0],
      band_insts = [''''], band_bsets = [''''], band_systs = [''''], band_names = [''V''],
      n_bands = 1, band_wavelengths = [[1, 2, 4]], transmissions = [[0, 1, 1]],
      min_waves = [1], max_waves = [4], filter_integrals = [5 / 2], band_offsets = [Fin 0],
      bands = None, band_indices = None, dxs = None, dist_const = None, luminosities = None,
      kw_systems = None, kw_instruments = None, kw_bandsets = None\<rparr>"

definition two_bands :: filters where
  "two_bands =
     \<lparr>preprocessed = False,
      heap = plain_heap(0 := named_band ''A'', 1 := named_band ''B''), unique_bands = [0, 1],
      band_insts = ['''', ''''], band_bsets = ['''', ''''], band_systs = ['''', ''''],
      band_names = [''A'', ''B''], n_bands = 2,
      band_wavelengths = [[0, 10], [0, 10]], transmissions = [[1, 1], [1, 1]],
      min_waves = [0, 0], max_waves = [10, 10], filter_integrals = [10, 10],
      band_offsets = [Fin 0, Fin 0],
      bands = None, band_indices = None, dxs = None, dist_const = None, luminosities = None,
      kw_systems = None, kw_instruments = None, kw_bandsets = None\<rparr>"

text \<open>
  Constants with \<^verbatim>\<open>AB_OFFSET = 0\<close> and \<^verbatim>\<open>MPC_CGS = 1\<close>, and batches: two observations,
  the first in band \<open>B\<close> (grid \<open>0, 2, 4\<close>), the second in band \<open>A\<close> (grid \<open>0, 5, 10\<close>);
  one observation in band \<open>V\<close> on the grid \<open>0, 2, 4, 6\<close>, whose last point lies beyond the
  curve, with a given SED.
\<close>

definition unit_constants :: constants where
  "unit_constants = \<lparr>AB_OFFSET = 0, MPC_CGS = 1\<rparr>"

definition two_obs :: batch where
  "two_obs = \<lparr>all_bands = [''B'', ''A''], samplewavelengths = [[0, 5, 10], [0, 2, 4]],
     lumdist = 1, arg_luminosities = [1, 1], arg_systems = ['''', ''''],
     arg_instruments = ['''', ''''], arg_bandsets = ['''', ''''],
     seds = [[1, 1, 1], [1, 1, 1]]\<rparr>"

definition one_obs :: "real list \<Rightarrow> batch" where
  "one_obs sed = \<lparr>all_bands = [''V''], samplewavelengths = [[0, 2, 4, 6]],
     lumdist = 1, arg_luminosities = [1], arg_systems = [''''],
     arg_instruments = [''''], arg_bandsets = [''''], seds = [sed]\<rparr>"

definition obs_B :: batch where
  "obs_B = \<lparr>all_bands = [''B''], samplewavelengths = [[0, 5, 10], [0, 2, 4]],
     lumdist = 1, arg_luminosities = [1], arg_systems = [[]],
     arg_instruments = [[]], arg_bandsets = [[]], seds = [[1, 1, 1]]\<rparr>"

text \<open>\<^verbatim>\<open>r >= m\<close> for a numpy float \<open>r\<close> and a finite \<open>m\<close>: false for NaN.\<close>

definition at_least :: "npfloat \<Rightarrow> real \<Rightarrow> bool" where
  "at_least r m = (case r of Fin x \<Rightarrow> m \<le> x | PInf \<Rightarrow> True | NInf \<Rightarrow> False | NaN \<Rightarrow> False)"

text \<open>
  All constants 1, and two inputs with black-hole mass 1 and \<open>Rph0 = 0\<close>: luminosities
  \<open>0, 1, 2\<close> at times \<open>0, 1, 2\<close> with exponent 1, and luminosities \<open>1, -1\<close> at times
  \<open>0, 1\<close> with exponent 1/2.
\<close>

definition unit_tde :: tde_constants where
  "unit_tde = \<lparr>G_CGS = 1, M_SUN_CGS = 1, C_CGS = 1, DAY_CGS = 1, STEF_CONST = 1\<rparr>"

definition rising :: tde_input where
  "rising = \<lparr>rest_times = [0, 1, 2], bhmass = 1, starmass = 1, lphoto = 1, Rph0 = 0,
     tde_luminosities = [0, 1, 2], Rstar = 1\<rparr>"

definition negative_after :: tde_input where
  "negative_after = \<lparr>rest_times = [0, 1], bhmass = 1, starmass = 1, lphoto = 1 / 2, Rph0 = 0,
     tde_luminosities = [1, - 1], Rstar = 1\<rparr>"

section \<open>Auxiliary facts\<close>

lemmas registry_defs = init_registry_def build_band_list_def rule_step_def sysinstperms_def
  get_or_def bind_err_def py_key_def

lemmas find_defs = find_band_index_def cond1_def cond2_def cond3_def cond4_def py_and_def
  name_is_def in_at_def py_nth_def

lemma str_in_Nil [simp]: "str_in [] ys"
  by (cases ys) simp_all

lemma str_in_sublist: "str_in xs ys \<longleftrightarrow> sublist xs ys"
  by (induction ys) (auto simp: sublist_Cons_right)

lemma py_and_Inr [simp]: "py_and (Inr a) (Inr b) = Inr (a \<and> b)"
  by (simp add: py_and_def bind_err_def)

lemma map_err_Inr:
  "(\<And>x. x \<in> set xs \<Longrightarrow> f x = Inr (g x)) \<Longrightarrow> map_err f xs = Inr (map g xs)"
  by (induction xs) (simp_all add: bind_err_def)

lemma map_err_length: "map_err f xs = Inr ys \<Longrightarrow> length ys = length xs"
  by (induction xs arbitrary: ys) (auto simp: bind_err_def split: sum.splits)

lemma py_key_the: "v \<noteq> None \<Longrightarrow> py_key v = Inr (the v)"
  by (auto simp: py_key_def)

subsection \<open>The registry after the first loop\<close>

lemma append_perms_keyed: "keyed acc \<Longrightarrow> keyed (append_perms a bnd perms acc)"
proof (induction perms arbitrary: acc)
  case Nil
  then show ?case by (cases acc) simp
next
  case (Cons p perms)
  obtain x y z where p: "p = (x, y, z)" by (cases p)
  obtain bl h where acc: "acc = (bl, h)" by (cases acc)
  have "keyed (bl @ [a], h(a := (h a)\<lparr>systems := Some x, instruments := Some y,
      bandsets := Some z, name := Some bnd\<rparr>))"
    using Cons.prems by (auto simp: keyed_def acc list_all_iff)
  then show ?case
    using Cons.IH by (simp add: p acc)
qed

lemma fold_keyed:
  assumes "\<And>x acc. keyed acc \<Longrightarrow> keyed (f x acc)"
  shows "keyed acc \<Longrightarrow> keyed (fold f xs acc)"
  by (induction xs arbitrary: acc) (simp_all add: assms)

lemma rule_step_keyed: "keyed acc \<Longrightarrow> keyed (rule_step b r acc)"
  unfolding rule_step_def
  by (rule fold_keyed) (auto simp: append_perms_keyed split: prod.splits)

lemma build_band_list_keyed: "keyed (build_band_list bs filterrules h)"
  unfolding build_band_list_def
  by (rule fold_keyed, rule fold_keyed, rule rule_step_keyed) (simp_all add: keyed_def)

text \<open>The list comprehensions of lines 53 to 56 never raise.\<close>

lemma init_registry_eq:
  "init_registry bs filterrules h0 =
     (let (band_list, h) = build_band_list bs filterrules h0 in
      Inr \<lparr>preprocessed = False, heap = h, unique_bands = band_list,
           band_insts = map (\<lambda>a. the (instruments (h a))) band_list,
           band_bsets = map (\<lambda>a. the (bandsets (h a))) band_list,
           band_systs = map (\<lambda>a. the (systems (h a))) band_list,
           band_names = map (\<lambda>a. the (name (h a))) band_list,
           n_bands = length band_list,
           band_wavelengths = replicate (length band_list) [],
           transmissions = replicate (length band_list) [],
           min_waves = replicate (length band_list) 0,
           max_waves = replicate (length band_list) 0,
           filter_integrals = replicate (length band_list) 0,
           band_offsets = replicate (length band_list) (Fin 0),
           bands = None, band_indices = None, dxs = None, dist_const = None,
           luminosities = None, kw_systems = None, kw_instruments = None,
           kw_bandsets = None\<rparr>)"
proof -
  obtain bl h where b: "build_band_list bs filterrules h0 = (bl, h)"
    by (cases "build_band_list bs filterrules h0")
  have k: "keyed (bl, h)"
    using build_band_list_keyed [of bs filterrules h0] by (simp add: b)
  have 1: "map_err (\<lambda>a. py_key (instruments (h a))) bl = Inr (map (\<lambda>a. the (instruments (h a))) bl)"
    using k by (intro map_err_Inr py_key_the) (simp add: keyed_def list_all_iff)
  have 2: "map_err (\<lambda>a. py_key (bandsets (h a))) bl = Inr (map (\<lambda>a. the (bandsets (h a))) bl)"
    using k by (intro map_err_Inr py_key_the) (simp add: keyed_def list_all_iff)
  have 3: "map_err (\<lambda>a. py_key (systems (h a))) bl = Inr (map (\<lambda>a. the (systems (h a))) bl)"
    using k by (intro map_err_Inr py_key_the) (simp add: keyed_def list_all_iff)
  have 4: "map_err (\<lambda>a. py_key (name (h a))) bl = Inr (map (\<lambda>a. the (name (h a))) bl)"
    using k by (intro map_err_Inr py_key_the) (simp add: keyed_def list_all_iff)
  show ?thesis
    by (simp add: init_registry_def b 1 2 3 4 bind_err_def)
qed

lemma init_registry_ok: "init_registry bs filterrules h0 = Inr s \<Longrightarrow> registry_ok s"
proof -
  assume a: "init_registry bs filterrules h0 = Inr s"
  obtain bl h where b: "build_band_list bs filterrules h0 = (bl, h)"
    by (cases "build_band_list bs filterrules h0")
  have k: "keyed (bl, h)"
    using build_band_list_keyed [of bs filterrules h0] by (simp add: b)
  from a have "heap s = h" "unique_bands s = bl" "length (band_insts s) = length bl"
    "length (band_bsets s) = length bl" "length (band_systs s) = length bl"
    by (auto simp: init_registry_eq b)
  with k show ?thesis
    by (simp add: registry_ok_def keyed_def list_all_iff)
qed

subsection \<open>The scan of \<^verbatim>\<open>find_band_index\<close>\<close>

lemma name_is_ok:
  assumes "registry_ok s" "bi < length (unique_bands s)"
  shows "name_is s (unique_bands s ! bi) nm = Inr (nm = entry_name s bi)"
proof -
  from assms have "name (heap s (unique_bands s ! bi)) \<noteq> None"
    by (simp add: registry_ok_def list_all_length)
  then show ?thesis
    by (auto simp: name_is_def entry_name_def py_key_def bind_err_def)
qed

lemma in_at_ok: "bi < length col \<Longrightarrow> in_at x col bi = Inr (str_in x (col ! bi))"
  by (simp add: in_at_def py_nth_def bind_err_def)

lemma conds_ok:
  assumes "registry_ok s" "bi < length (unique_bands s)"
  shows "cond1 s bi (unique_bands s ! bi) nm i b sy = Inr (test1 s bi nm i b sy)"
    and "cond2 s bi (unique_bands s ! bi) nm i sy = Inr (test2 s bi nm i sy)"
    and "cond3 s bi (unique_bands s ! bi) nm sy = Inr (test3 s bi nm sy)"
    and "cond4 s bi (unique_bands s ! bi) nm = Inr (test4 s bi nm)"
  using assms name_is_ok [OF assms]
  by (simp_all add: cond1_def cond2_def cond3_def cond4_def test1_def test2_def test3_def
      test4_def in_at_ok registry_ok_def)

text \<open>
  The scan from position \<open>bi\<close>: it raises ValueError when no entry from \<open>bi\<close> on
  passes one of the four conditions, and returns the first entry that passes one
  otherwise.
\<close>

lemma find_from_drop:
  assumes ok: "registry_ok s"
  shows "bi \<le> length (unique_bands s) \<Longrightarrow> as = drop bi (unique_bands s) \<Longrightarrow>
    (case find_from s nm i b sy bi as of
       Inl e \<Rightarrow> e = ValueError \<and>
         (\<forall>j. bi \<le> j \<and> j < length (unique_bands s) \<longrightarrow> \<not> any_test s j nm i b sy)
     | Inr k \<Rightarrow> bi \<le> k \<and> k < length (unique_bands s) \<and> any_test s k nm i b sy \<and>
         (\<forall>j. bi \<le> j \<and> j < k \<longrightarrow> \<not> any_test s j nm i b sy))"
proof (induction as arbitrary: bi)
  case Nil
  then have "length (unique_bands s) = bi" by simp
  then show ?case by auto
next
  case (Cons a as)
  from Cons.prems have lt: "bi < length (unique_bands s)"
    by (metis drop_all list.distinct(1) not_le_imp_less)
  with Cons.prems have a: "a = unique_bands s ! bi" and as: "as = drop (Suc bi) (unique_bands s)"
    by (simp_all add: Cons_nth_drop_Suc [symmetric])
  note c = conds_ok [OF ok lt]
  show ?case
  proof (cases "any_test s bi nm i b sy")
    case True
    then have e: "find_from s nm i b sy bi (a # as) = Inr bi"
      by (auto simp: a c bind_err_def any_test_def)
    show ?thesis unfolding e using True lt by auto
  next
    case False
    then have eq: "find_from s nm i b sy bi (a # as) = find_from s nm i b sy (Suc bi) as"
      by (simp add: a c bind_err_def any_test_def)
    from lt as have IH: "case find_from s nm i b sy (Suc bi) as of
       Inl e \<Rightarrow> e = ValueError \<and>
         (\<forall>j. Suc bi \<le> j \<and> j < length (unique_bands s) \<longrightarrow> \<not> any_test s j nm i b sy)
     | Inr k \<Rightarrow> Suc bi \<le> k \<and> k < length (unique_bands s) \<and> any_test s k nm i b sy \<and>
         (\<forall>j. Suc bi \<le> j \<and> j < k \<longrightarrow> \<not> any_test s j nm i b sy)"
      by (intro Cons.IH) simp_all
    have step: "\<And>j. bi \<le> j \<Longrightarrow> j = bi \<or> Suc bi \<le> j" by arith
    show ?thesis
      unfolding eq using IH False
      by (auto split: sum.splits dest: step)
  qed
qed

lemma find_band_index_cases:
  assumes "registry_ok s"
  shows "case find_band_index s nm i b sy of
       Inl e \<Rightarrow> e = ValueError \<and>
         (\<forall>j < length (unique_bands s). \<not> any_test s j nm i b sy)
     | Inr k \<Rightarrow> k < length (unique_bands s) \<and> any_test s k nm i b sy \<and>
         (\<forall>j < k. \<not> any_test s j nm i b sy)"
  using find_from_drop [OF assms, of 0 "unique_bands s" nm i b sy]
  by (simp add: find_band_index_def split: sum.splits)

text \<open>
  The empty string occurs in every string, so the fourth condition holds for every
  entry of the right name, and so does the disjunction of the four.
\<close>

lemma any_test_name: "any_test s bi nm i b sy \<longleftrightarrow> nm = entry_name s bi"
  by (auto simp: any_test_def test1_def test2_def test3_def test4_def)

text \<open>
  So the function returns the first entry of the requested name, whatever the
  instrument, bandset and system of the request, and raises exactly when the registry
  has no entry of that name.
\<close>

lemma find_band_index_first_name:
  assumes "registry_ok s" and "find_band_index s nm i b sy = Inr k"
  shows "k < length (unique_bands s)" and "entry_name s k = nm"
    and "\<And>j. j < k \<Longrightarrow> entry_name s j \<noteq> nm"
  using find_band_index_cases [OF assms(1), of nm i b sy] assms(2)
  by (auto simp: any_test_name)

lemma find_band_index_raises_iff_name:
  assumes "registry_ok s"
  shows "(\<exists>e. find_band_index s nm i b sy = Inl e) \<longleftrightarrow>
     \<not> (\<exists>bi < length (unique_bands s). entry_name s bi = nm)"
    and "find_band_index s nm i b sy = Inl e \<Longrightarrow> e = ValueError"
  using find_band_index_cases [OF assms, of nm i b sy]
  by (cases "find_band_index s nm i b sy"; auto simp: any_test_name)+

text \<open>
  An entry that satisfies a tier of the specification passes the condition of the same
  number, so the function returns an index into the registry whenever some entry
  satisfies a tier, and no entry satisfies a tier when it raises.
\<close>

lemma any_tier_any_test: "any_tier s bi nm i b sy \<Longrightarrow> any_test s bi nm i b sy"
  by (simp add: any_test_name any_tier_def tier1_def tier2_def tier3_def tier4_def) blast

lemma find_band_index_tier_returns:
  assumes "registry_ok s" and "bi < length (unique_bands s)" and "any_tier s bi nm i b sy"
  shows "\<exists>k. find_band_index s nm i b sy = Inr k \<and> k < length (unique_bands s)"
  using find_band_index_cases [OF assms(1), of nm i b sy] any_tier_any_test [OF assms(3)] assms(2)
  by (cases "find_band_index s nm i b sy") auto

subsection \<open>Loading\<close>

lemma np_diff_nth: "i < length xs - 1 \<Longrightarrow> np_diff xs ! i = xs ! (i + 1) - xs ! i"
  by (simp add: np_diff_def nth_tl nth_butlast)

lemma np_diff_length [simp]: "length (np_diff xs) = length xs - 1"
  by (simp add: np_diff_def)

lemma pair_sums_nth: "i < length ys - 1 \<Longrightarrow> pair_sums ys ! i = ys ! (i + 1) + ys ! i"
  by (simp add: pair_sums_def nth_tl nth_butlast)

lemma pair_sums_length [simp]: "length (pair_sums ys) = length ys - 1"
  by (simp add: pair_sums_def)

lemma np_trapz_area:
  assumes "length ys = length xs"
  shows "np_trapz ys xs = trapezoid_area xs ys"
proof -
  have "map2 (\<lambda>d p. d * p / 2) (np_diff xs) (pair_sums ys) =
        map (\<lambda>i. (xs ! (i + 1) - xs ! i) * (ys ! i + ys ! (i + 1)) / 2) [0..<length xs - 1]"
    using assms by (intro nth_equalityI) (simp_all add: np_diff_nth pair_sums_nth add.commute)
  then show ?thesis
    by (simp add: np_trapz_def trapezoid_area_def sum_list_sum_nth atLeast0LessThan)
qed

lemma py_min_Min: "ws \<noteq> [] \<Longrightarrow> py_min ws = Inr (Min (set ws))"
  by (cases ws) (simp_all add: py_min_def Min.set_eq_fold [symmetric])

lemma py_max_Max: "ws \<noteq> [] \<Longrightarrow> py_max ws = Inr (Max (set ws))"
  by (cases ws) (simp_all add: py_max_def Max.set_eq_fold [symmetric])

lemma sort_ne: "ws \<noteq> [] \<Longrightarrow> sort ws \<noteq> ([]::real list)"
  by (metis length_0_conv length_sort)

lemma hd_sort_Min: "ws \<noteq> [] \<Longrightarrow> hd (sort ws) = Min (set (ws::real list))"
proof -
  assume "ws \<noteq> []"
  then obtain x r where s: "sort ws = x # r"
    using sort_ne [of ws] by (cases "sort ws") auto
  have "sorted (x # r)" "set (x # r) = set ws"
    by (simp_all flip: s)
  then show ?thesis
    by (auto simp: s intro!: Min_eqI [symmetric])
qed

lemma sorted_le_last: "sorted xs \<Longrightarrow> y \<in> set xs \<Longrightarrow> y \<le> last (xs::real list)"
  by (induction xs) auto

lemma last_sort_Max: "ws \<noteq> [] \<Longrightarrow> last (sort ws) = Max (set (ws::real list))"
proof -
  assume ne: "ws \<noteq> []"
  then have "last (sort ws) \<in> set ws"
    using last_in_set [of "sort ws"] sort_ne [of ws] by simp
  moreover have "\<And>y. y \<in> set ws \<Longrightarrow> y \<le> last (sort ws)"
    using sorted_le_last [of "sort ws"] by simp
  ultimately show ?thesis
    by (intro Max_eqI [symmetric]) simp_all
qed

lemma n_columns_two:
  assumes "n_columns rows = 2"
  shows "rows \<noteq> []"
  using assms by (auto simp: n_columns_def)

lemma unzip_rows_Inr:
  assumes "unzip_rows rows = Inr (ws, ts)"
  shows "ws \<noteq> []" and "length ts = length ws" and "ws = map (\<lambda>r. r ! 0) rows"
    and "ts = map (\<lambda>r. r ! 1) rows"
  using assms n_columns_two [of rows]
  by (auto simp: unzip_rows_def split: if_splits)

text \<open>
  Lines 137 to 147 for one entry, whatever the rows and zero points (on the master those
  it loaded, on another process those it received): the entry holds the two columns,
  their extremes, the trapezoidal integral and the resolved offset, and no other entry
  changes.
\<close>

lemma populate_Inr:
  assumes p: "populate s i b rows zps = Inr s'" and sz: "sized s n" and i: "i < n"
    and z: "band_offsets s ! i = Fin 0"
  shows "entry s' i = entry_of b rows zps" and "n_columns rows = 2" and "sized s' n"
    and "registry_names s' = registry_names s" and "\<And>j. j \<noteq> i \<Longrightarrow> entry s' j = entry s j"
proof -
  from p obtain ws ts where u: "unzip_rows rows = Inr (ws, ts)"
    by (cases "unzip_rows rows") (auto simp: populate_def bind_err_def)
  note w = unzip_rows_Inr [OF u]
  note ne = w(1)
  from u show "n_columns rows = 2"
    by (simp add: unzip_rows_def split: if_splits)
  let ?s1 = "s\<lparr>band_wavelengths := (band_wavelengths s)[i := ws],
                   transmissions := (transmissions s)[i := ts],
                   min_waves := (min_waves s)[i := Min (set ws)],
                   max_waves := (max_waves s)[i := Max (set ws)],
                   filter_integrals := (filter_integrals s)[i := np_trapz ts ws]\<rparr>"
  have s': "s' = (case offset b of
            Some off \<Rightarrow> ?s1\<lparr>band_offsets := (band_offsets ?s1)[i := Fin off]\<rparr>
          | None \<Rightarrow>
              (case SVO b of
                 Some svo \<Rightarrow> ?s1\<lparr>band_offsets := (band_offsets ?s1)[i := last zps]\<rparr>
               | None \<Rightarrow> ?s1))"
    using p by (simp add: populate_def u bind_err_def py_min_Min [OF ne] py_max_Max [OF ne]
        Let_def split: option.splits)
  show "entry s' i = entry_of b rows zps"
    using sz i z w by (simp add: s' entry_def entry_of_def resolved_offset_def sized_def
        split: option.splits)
  show "sized s' n"
    using sz by (simp add: s' sized_def split: option.splits)
  show "registry_names s' = registry_names s"
    by (simp add: s' registry_names_def split: option.splits)
  show "entry s' j = entry s j" if "j \<noteq> i" for j
    using that by (simp add: s' entry_def split: option.splits)
qed

lemma zp_loop_AB: "zp_loop ''AB'' vs (zf, zps) = Inr (zf @ vs, zps)"
  by (induction vs arbitrary: zf) simp_all

text \<open>
  For another system the loop raises at a zero point that is zero, and appends one
  offset per zero point otherwise.
\<close>

lemma zp_loop_other:
  "sys \<noteq> ''AB'' \<Longrightarrow> zf \<noteq> [] \<Longrightarrow>
   zp_loop sys vs (zf, zps) =
     (if 0 \<in> set vs then Inl ZeroDivisionError
      else Inr (zf @ vs,
                zps @ map (\<lambda>v. xmul (Fin (5 / 2)) (xlog10 (xdiv (Fin (hd zf)) (Fin v)))) vs))"
  by (induction vs arbitrary: zf zps) (auto simp: py_div_def bind_err_def)

lemma svo_loop_xml:
  "svo_loop svo syss (zf, zps, p, fs) = Inr (zf', zps', p', fs') \<Longrightarrow> xml_files fs' = xml_files fs"
proof (induction syss arbitrary: zf zps p fs)
  case Nil
  then show ?case by simp
next
  case (Cons sys syss)
  from Cons.prems obtain vt where vt: "xml_files fs (xml_name (svopath svo sys)) = Some vt"
    by (cases "xml_files fs (xml_name (svopath svo sys))") auto
  from Cons.prems obtain a b where z: "zp_loop sys (zeropoints vt) (zf, zps) = Inr (a, b)"
    by (cases "zp_loop sys (zeropoints vt) (zf, zps)") (auto simp: vt bind_err_def)
  from Cons.prems have "svo_loop svo syss (a, b, dat_name (svopath svo sys),
      fs\<lparr>dat_files := (dat_files fs)(dat_name (svopath svo sys) \<mapsto> first_table vt)\<rparr>) =
      Inr (zf', zps', p', fs')"
    by (simp add: vt z bind_err_def)
  from Cons.IH [OF this] show ?case by simp
qed

lemma load_band_xml:
  assumes "load_band fs b = Inr (rows, zps, fs')"
  shows "xml_files fs' = xml_files fs"
proof (cases "SVO b")
  case None
  with assms show ?thesis
    by (auto simp: load_band_def bind_err_def py_key_def split: option.splits sum.splits)
next
  case (Some svo)
  with assms show ?thesis
    by (auto simp: load_band_def bind_err_def Let_def simp del: svo_loop.simps
        split: option.splits sum.splits if_splits dest: svo_loop_xml)
qed

lemma load_band_zps_AB:
  assumes "load_band fs b = Inr (rows, zps, fs')" "SVO b = Some svo"
    "last (split_slash svo) = ''AB''"
  shows "zps = [Fin 0]"
  using assms
  by (auto simp: load_band_def bind_err_def Let_def zp_loop_AB
      split: option.splits sum.splits if_splits)

text \<open>
  A band of another system that loads has no zero point that is zero in its native
  VOTable, and its last zero-point offset is that of the last native zero point.
\<close>

lemma load_band_zps_native:
  assumes l: "load_band fs b = Inr (rows, zps, fs')" and svo: "SVO b = Some svo"
    and ps: "last (split_slash svo) \<noteq> ''AB''"
    and va: "xml_files fs (xml_name (svopath svo ''AB'')) = Some va"
    and vn: "xml_files fs (xml_name (svopath svo (last (split_slash svo)))) = Some vn"
    and ne: "zeropoints va \<noteq> []" "zeropoints vn \<noteq> []"
  shows "last zps =
     xmul (Fin (5 / 2)) (xlog10 (xdiv (Fin (hd (zeropoints va))) (Fin (last (zeropoints vn)))))"
    and "0 \<notin> set (zeropoints vn)"
proof -
  let ?ps = "last (split_slash svo)"
  let ?fs1 = "fs\<lparr>dat_files := (dat_files fs)(dat_name (svopath svo ''AB'') \<mapsto> first_table va)\<rparr>"
  have sl: "svo_loop svo [''AB'', ?ps] ([], [Fin 0], [], fs) =
     (if 0 \<in> set (zeropoints vn) then Inl ZeroDivisionError
      else Inr (zeropoints va @ zeropoints vn,
          [Fin 0] @ map (\<lambda>v. xmul (Fin (5 / 2)) (xlog10 (xdiv (Fin (hd (zeropoints va))) (Fin v))))
                      (zeropoints vn),
          dat_name (svopath svo ?ps),
          ?fs1\<lparr>dat_files := (dat_files ?fs1)(dat_name (svopath svo ?ps) \<mapsto> first_table vn)\<rparr>))"
    using ps ne by (simp add: va vn zp_loop_AB zp_loop_other bind_err_def)
  from l svo ps have "\<exists>zf p f. svo_loop svo [''AB'', ?ps] ([], [Fin 0], [], fs) = Inr (zf, zps, p, f)"
    by (auto simp: load_band_def bind_err_def Let_def simp del: svo_loop.simps
        split: option.splits sum.splits)
  then have r: "0 \<notin> set (zeropoints vn) \<and> zps = [Fin 0] @ map (\<lambda>v. xmul (Fin (5 / 2))
      (xlog10 (xdiv (Fin (hd (zeropoints va))) (Fin v)))) (zeropoints vn)"
    unfolding sl by (auto split: if_splits)
  then show "0 \<notin> set (zeropoints vn)" by simp
  from r have "zps = [Fin 0] @ map (\<lambda>v. xmul (Fin (5 / 2))
      (xlog10 (xdiv (Fin (hd (zeropoints va))) (Fin v)))) (zeropoints vn)"
    by simp
  then show "last zps =
     xmul (Fin (5 / 2)) (xlog10 (xdiv (Fin (hd (zeropoints va))) (Fin (last (zeropoints vn)))))"
    using ne by (simp add: last_map)
qed

lemma registry_names_simps:
  "registry_names s' = registry_names s \<Longrightarrow> heap s' = heap s"
  "registry_names s' = registry_names s \<Longrightarrow> unique_bands s' = unique_bands s"
  "registry_names s' = registry_names s \<Longrightarrow> n_bands s' = n_bands s"
  by (simp_all add: registry_names_def)

lemma load_loop_inv:
  "load_loop fs s k as = Inr (s', fs') \<Longrightarrow> as = drop k (unique_bands s) \<Longrightarrow> sized s n \<Longrightarrow>
   (\<forall>i. k \<le> i \<and> i < n \<longrightarrow> band_offsets s ! i = Fin 0) \<Longrightarrow>
     registry_names s' = registry_names s \<and> sized s' n \<and> xml_files fs' = xml_files fs \<and>
     (\<forall>j<k. entry s' j = entry s j) \<and>
     (\<forall>i. k \<le> i \<and> i < n \<longrightarrow> loaded (xml_files fs) s' i)"
proof (induction as arbitrary: s fs k)
  case Nil
  then have "n \<le> k" by (simp add: sized_def)
  with Nil show ?case by auto
next
  case (Cons a as)
  from Cons.prems(2,3) have lt: "k < n"
    by (metis drop_all list.distinct(1) not_le_imp_less sized_def)
  with Cons.prems(2,3) have a: "a = unique_bands s ! k"
    and as: "as = drop (Suc k) (unique_bands s)"
    by (simp_all add: Cons_nth_drop_Suc [symmetric] sized_def)
  from Cons.prems(1) obtain rows zps fs1 where lb: "load_band fs (heap s a) = Inr (rows, zps, fs1)"
    by (cases "load_band fs (heap s a)") (auto simp: bind_err_def)
  with Cons.prems(1) obtain s1 where pop: "populate s k (heap s a) rows zps = Inr s1"
    by (cases "populate s k (heap s a) rows zps") (auto simp: bind_err_def)
  from Cons.prems(1) lb pop have ll: "load_loop fs1 s1 (Suc k) as = Inr (s', fs')"
    by (simp add: bind_err_def)
  from Cons.prems(4) lt have z: "band_offsets s ! k = Fin 0" by simp
  note P = populate_Inr [OF pop Cons.prems(3) lt z]
  note x1 = load_band_xml [OF lb]
  have z1: "\<forall>i. Suc k \<le> i \<and> i < n \<longrightarrow> band_offsets s1 ! i = Fin 0"
  proof (intro allI impI)
    fix i assume i: "Suc k \<le> i \<and> i < n"
    then have "entry s1 i = entry s i" by (intro P(5)) simp
    with Cons.prems(4) i show "band_offsets s1 ! i = Fin 0"
      by (simp add: entry_def)
  qed
  have as1: "as = drop (Suc k) (unique_bands s1)"
    using as registry_names_simps(2) [OF P(4)] by simp
  note IH = Cons.IH [OF ll as1 P(3) z1]
  from IH have rn: "registry_names s' = registry_names s"
    using P(4) by simp
  have lk: "loaded (xml_files fs) s' k"
  proof -
    from IH have "entry s' k = entry s1 k" by simp
    with P(1) have "entry s' k = entry_of (heap s a) rows zps" by simp
    moreover have "heap s' (unique_bands s' ! k) = heap s a"
      using registry_names_simps(1,2) [OF rn] a by simp
    ultimately show ?thesis
      unfolding loaded_def using lb P(2) by metis
  qed
  have "loaded (xml_files fs) s' i" if "k \<le> i \<and> i < n" for i
  proof (cases "i = k")
    case True
    with lk show ?thesis by simp
  next
    case False
    with that have "Suc k \<le> i \<and> i < n" by simp
    with IH have "loaded (xml_files fs1) s' i" by blast
    then show ?thesis by (simp add: x1)
  qed
  moreover have "entry s' j = entry s j" if "j < k" for j
  proof -
    from IH that have "entry s' j = entry s1 j" by simp
    also have "\<dots> = entry s j" using that by (intro P(5)) simp
    finally show ?thesis .
  qed
  ultimately show ?case
    using rn IH x1 by simp
qed

lemma init_loaded:
  assumes "init bs filterrules h0 fs = Inr (s, fs')" and "i < n_bands s"
  shows "loaded (xml_files fs) s i" and "registry_ok s" and "n_bands s = length (unique_bands s)"
proof -
  from assms(1) obtain s0 where s0: "init_registry bs filterrules h0 = Inr s0"
    and ll: "load_loop fs s0 0 (unique_bands s0) = Inr (s, fs')"
    by (cases "init_registry bs filterrules h0") (auto simp: init_def bind_err_def)
  from s0 have sz: "sized s0 (n_bands s0)"
    and z: "\<forall>i. 0 \<le> i \<and> i < n_bands s0 \<longrightarrow> band_offsets s0 ! i = Fin 0"
    and n0: "n_bands s0 = length (unique_bands s0)"
    by (auto simp: init_registry_eq sized_def split: prod.splits)
  have "unique_bands s0 = drop 0 (unique_bands s0)" by simp
  note I = load_loop_inv [OF ll this sz z]
  from I have n: "n_bands s = n_bands s0" "unique_bands s = unique_bands s0"
    "heap s = heap s0" "band_insts s = band_insts s0" "band_bsets s = band_bsets s0"
    "band_systs s = band_systs s0"
    by (simp_all add: registry_names_def)
  from I assms(2) n show "loaded (xml_files fs) s i" by simp
  from init_registry_ok [OF s0] n show "registry_ok s"
    by (simp add: registry_ok_def)
  from n n0 show "n_bands s = length (unique_bands s)" by simp
qed

lemmas load_defs = init_def load_band_def populate_def unzip_rows_def n_columns_def py_min_def
  py_max_def np_trapz_def np_diff_def pair_sums_def svopath_def dat_name_def xml_name_def
  replace_slash_def py_div_def

lemma xlog10_ratio:
  "0 < a \<Longrightarrow> 0 < b \<Longrightarrow>
   xmul (Fin (5 / 2)) (xlog10 (xdiv (Fin a) (Fin b))) = Fin (5 / 2 * log 10 (a / b))"
  by simp

lemmas process_defs = process_def eff_step_def abmag_def abmag1_def np_interp_def
  np_interp1_def np_trapz_dx_def pair_sums_def MAG_FAC_def FOUR_PI_def Let_def py_key_def bind_err_def

lemma init_one_band: "init [''V''] [rule_default] plain_heap curve_files = Inr (one_band, curve_files)"
  by (simp add: registry_defs load_defs rule_default_def plain_heap_def path_band_def
      curve_files_def one_band_def named_band_def fun_upd_def)

lemma init_two_bands:
  "init [''A'', ''B''] [rule_two_filters] plain_heap flat_files = Inr (two_bands, flat_files)"
  by (simp add: registry_defs load_defs rule_two_filters_def plain_heap_def path_band_def
      flat_files_def two_bands_def named_band_def fun_upd_def)

lemmas eval_defs = process_defs find_defs

lemma lerp_between:
  fixes x x0 x1 f0 f1 :: real
  assumes "x0 < x" "x < x1"
  shows "(f0 \<le> (f1 - f0) / (x1 - x0) * (x - x0) + f0 \<and>
          (f1 - f0) / (x1 - x0) * (x - x0) + f0 \<le> f1) \<or>
         (f1 \<le> (f1 - f0) / (x1 - x0) * (x - x0) + f0 \<and>
          (f1 - f0) / (x1 - x0) * (x - x0) + f0 \<le> f0)"
proof -
  define t where "t = (x - x0) / (x1 - x0)"
  have t: "0 \<le> t" "t \<le> 1"
    using assms by (simp_all add: t_def)
  have v: "(f1 - f0) / (x1 - x0) * (x - x0) + f0 = f0 + t * (f1 - f0)"
    by (simp add: t_def)
  show ?thesis
  proof (cases "f0 \<le> f1")
    case True
    then have a: "0 \<le> t * (f1 - f0)" and b: "t * (f1 - f0) \<le> f1 - f0"
      using t by (simp, intro mult_left_le_one_le, simp_all)
    from a have "f0 \<le> f0 + t * (f1 - f0)" by simp
    moreover from b have "f0 + t * (f1 - f0) \<le> f1" by simp
    ultimately show ?thesis unfolding v by blast
  next
    case False
    then have a: "0 \<le> t * (f0 - f1)" and b: "t * (f0 - f1) \<le> f0 - f1"
      using t by (simp, intro mult_left_le_one_le, simp_all)
    from b have "f1 \<le> f0 + t * (f1 - f0)" by (simp add: algebra_simps)
    moreover from a have "f0 + t * (f1 - f0) \<le> f0" by (simp add: algebra_simps)
    ultimately show ?thesis unfolding v by blast
  qed
qed

lemma interp_scan_range:
  "length fp = length xp \<Longrightarrow> xp \<noteq> [] \<Longrightarrow> hd xp \<le> x \<Longrightarrow>
   Min (set fp) \<le> interp_scan x xp fp \<and> interp_scan x xp fp \<le> Max (set fp)"
proof (induction x xp fp rule: interp_scan.induct)
  case (1 x x0 x1 xp f0 f1 fp)
  let ?F = "set (f0 # f1 # fp)"
  have "Min ?F \<le> f0" "Min ?F \<le> f1" "f0 \<le> Max ?F" "f1 \<le> Max ?F"
    by (intro Min_le Max_ge; simp)+
  note m = this
  show ?case
  proof (cases "x < x1")
    case True
    show ?thesis
    proof (cases "x = x0")
      case True
      with \<open>x < x1\<close> show ?thesis by simp
    next
      case False
      with 1 have "x0 < x" by simp
      from lerp_between [OF this True, where ?f0.0 = f0 and ?f1.0 = f1] m True False
      show ?thesis
        by (simp only: interp_scan.simps if_True if_False) linarith
    qed
  next
    case False
    with 1 have "Min (set (f1 # fp)) \<le> interp_scan x (x1 # xp) (f1 # fp) \<and>
        interp_scan x (x1 # xp) (f1 # fp) \<le> Max (set (f1 # fp))"
      by simp
    moreover have "Min ?F \<le> Min (set (f1 # fp))" "Max (set (f1 # fp)) \<le> Max ?F"
      by (auto intro!: Min_antimono Max_mono)
    ultimately show ?thesis
      using False by (simp only: interp_scan.simps if_False) linarith
  qed
next
  case (2 x x0 f0)
  then show ?case by simp
qed simp_all

lemma np_interp1_range:
  assumes "length fp = length xp" "xp \<noteq> []"
  shows "Min (set fp) \<le> np_interp1 x xp fp" and "np_interp1 x xp fp \<le> Max (set fp)"
proof -
  from assms have ne: "fp \<noteq> []" by auto
  then have h: "hd fp \<in> set fp" "last fp \<in> set fp" by simp_all
  have "Min (set fp) \<le> np_interp1 x xp fp \<and> np_interp1 x xp fp \<le> Max (set fp)"
  proof (cases "last xp < x \<or> x < hd xp")
    case True
    then show ?thesis
      using h by (auto simp: np_interp1_def)
  next
    case False
    then have "np_interp1 x xp fp = interp_scan x xp fp" "hd xp \<le> x"
      by (auto simp: np_interp1_def)
    with interp_scan_range [OF assms, of x] show ?thesis by simp
  qed
  then show "Min (set fp) \<le> np_interp1 x xp fp" and "np_interp1 x xp fp \<le> Max (set fp)"
    by simp_all
qed

lemma sorted_hd_Min: "sorted xs \<Longrightarrow> xs \<noteq> [] \<Longrightarrow> hd xs = Min (set (xs::real list))"
  by (cases xs) (auto intro!: Min_eqI [symmetric])

lemma sorted_last_Max: "sorted xs \<Longrightarrow> xs \<noteq> [] \<Longrightarrow> last xs = Max (set (xs::real list))"
  by (intro Max_eqI [symmetric]) (auto intro: sorted_le_last)

lemma eff_step_Inr:
  assumes "eff_step s kw bis ds li = Inr (F, off)"
  shows "\<exists>itrans.
     np_interp (samplewavelengths kw ! (bis ! li)) (band_wavelengths s ! (bis ! li))
       (transmissions s ! (bis ! li)) = Inr itrans \<and>
     F = xdiv (Fin (np_trapz_dx (map2 (\<lambda>x y. x * y) itrans (seds kw ! li)) (ds ! (bis ! li))))
           (Fin (filter_integrals s ! (bis ! li))) \<and>
     off = band_offsets s ! (bis ! li)"
  using assms
  by (auto simp: eff_step_def bind_err_def py_nth_def simp del: xdiv.simps
      split: sum.splits if_splits)

lemma map_err_nth:
  "map_err f xs = Inr ys \<Longrightarrow> i < length xs \<Longrightarrow> f (xs ! i) = Inr (ys ! i)"
proof (induction xs arbitrary: ys i)
  case Nil
  then show ?case by simp
next
  case (Cons x xs)
  then show ?case
    by (cases i) (auto simp: bind_err_def split: sum.splits)
qed

lemma map_err_total:
  "(\<And>x. x \<in> set xs \<Longrightarrow> \<exists>y. f x = Inr y) \<Longrightarrow> \<exists>ys. map_err f xs = Inr ys"
proof (induction xs)
  case Nil
  then show ?case by simp
next
  case (Cons x xs)
  then obtain y ys where "f x = Inr y" "map_err f xs = Inr ys"
    by (metis list.set_intros)
  then show ?case by (simp add: bind_err_def)
qed

lemma abmag1_total: "dist_const s = Some dc \<Longrightarrow> \<exists>m. abmag1 c s xy = Inr m"
  by (cases xy) (simp add: abmag1_def)

text \<open>What \<^verbatim>\<open>process\<close> has assigned and passed to \<^verbatim>\<open>abmag\<close> when it returns.\<close>

lemma process_Inr:
  assumes "fst (process c s kw) = Inr mags"
  shows "dist_const (snd (process c s kw)) =
           Some (xlog10 (Fin (FOUR_PI * (lumdist kw * MPC_CGS c)\<^sup>2)))"
    and "\<exists>bis ds eff_fluxes offsets.
           eff_loop (snd (process c s kw)) kw bis ds 0 (arg_luminosities kw) =
             Inr (eff_fluxes, offsets) \<and>
           abmag c (snd (process c s kw)) eff_fluxes offsets = Inr mags"
  using assms
  by (auto simp: process_def Let_def bind_err_def simp del: xlog10.simps
      split: sum.splits option.splits prod.splits)

lemmas tde_defs = tde_process_def radiusphot_def np_argmax_def np_where_gt_def broadcast2_def
  bind_err_def py_nth_def Let_def

lemma clamp_below_at_least: "clamp_below m r = NaN \<or> at_least (clamp_below m r) m"
  by (cases r) (auto simp: clamp_below_def at_least_def)

lemma clamp_below_number: "r \<noteq> NaN \<Longrightarrow> at_least (clamp_below m r) m"
  by (cases r) (auto simp: clamp_below_def at_least_def)

lemma semi_major_nonneg:
  assumes "0 \<le> G_CGS c * Mh * M_SUN_CGS c"
  shows "\<exists>a\<ge>0. semi_major c Mh t t0 = Fin a"
proof -
  have "0 \<le> G_CGS c * Mh * M_SUN_CGS c * ((t - t0) * DAY_CGS c / pi)\<^sup>2"
    using assms by simp
  then show ?thesis
    unfolding semi_major_def xpow_def by (auto split: npfloat.splits)
qed

lemma power_law_number:
  assumes "0 < Rph_0" "0 \<le> a" "0 < ledd" "0 \<le> L"
  shows "power_law Rph_0 (Fin a) ledd l L \<noteq> NaN"
proof -
  have "0 \<le> Rph_0 * a * L / ledd"
    using assms by simp
  then show ?thesis
    using assms(3) unfolding power_law_def xpow_def by auto
qed

lemma power_law_negative:
  assumes "0 < Rph_0" "0 < a" "0 < ledd" "L < 0" "l \<noteq> of_int \<lfloor>l\<rfloor>"
  shows "power_law Rph_0 (Fin a) ledd l L = NaN"
proof -
  define x where "x = Rph_0 * a * L / ledd"
  have p: "power_law Rph_0 (Fin a) ledd l L = xpow (Fin x) l"
    using assms(3) by (simp add: power_law_def x_def)
  have "x < 0"
    unfolding x_def using assms by (intro divide_neg_pos mult_pos_neg mult_pos_pos)
  moreover from assms(5) have "l \<noteq> 0" by auto
  ultimately show ?thesis
    using assms(5) unfolding p by (simp add: xpow_def)
qed

lemma Ledd_pos:
  "0 < G_CGS c \<Longrightarrow> 0 < M_SUN_CGS c \<Longrightarrow> 0 < C_CGS c \<Longrightarrow> 0 < Mh \<Longrightarrow> 0 < Ledd c Mh"
  by (simp add: Ledd_def kappa_t_def)

lemma ilumzero_le: "ilumzero lums \<le> length lums"
  by (simp add: ilumzero_def)

text \<open>
  The returned radii in closed form: \<^verbatim>\<open>rphotmax\<close> does not occur. (When no luminosity is
  positive the second part is empty.)
\<close>

lemma radiusphot_closed_form:
  assumes "radiusphot c kw = Inr rphot"
  shows "rphot =
     replicate (ilumzero (tde_luminosities kw)) (Fin (r_isco c (bhmass kw))) @
     map (\<lambda>L. clamp_below (r_isco c (bhmass kw))
                (power_law (10 powr Rph0 kw)
                   (semi_major c (bhmass kw)
                      (rest_times kw !
                         argmax_scan (tl (tde_luminosities kw)) 1 0 (hd (tde_luminosities kw)))
                      (rest_times kw ! ilumzero (tde_luminosities kw)))
                   (Ledd c (bhmass kw)) (lphoto kw) L))
         (drop (ilumzero (tde_luminosities kw)) (tde_luminosities kw))"
proof (cases "tde_luminosities kw")
  case Nil
  with assms show ?thesis
    by (simp add: tde_defs)
next
  case (Cons L0 Ls)
  show ?thesis
  proof (cases "ilumzero (tde_luminosities kw) = length (tde_luminosities kw)")
    case True
    with assms Cons show ?thesis
      by (auto simp: tde_defs ilumzero_def split: if_splits)
  next
    case False
    with assms Cons show ?thesis
      by (auto simp: tde_defs ilumzero_def split: if_splits sum.splits)
  qed
qed

section \<open>The claims\<close>

subsection \<open>C1\<close>

text \<open>
  C1. Claimed: for a requested band name and a rule whose filters contain it, the
  registry holds one distinct Band Definition per element of the cross product of the
  rule's systems, instruments and bandsets, each carrying that combination's values.
  The code appends the rule's own dictionary once per combination and writes the
  combination into it, so the entries of one filter of one rule are one object, which
  ends with the last combination: for the rule
  \<^verbatim>\<open>{"systems": ["AB", "Vega"], "filters": {"V": ...}}\<close> and the band \<open>V\<close> the registry is
  twice the same address, and both entries read system \<open>Vega\<close>.
\<close>

theorem init_registry_aliases_entries:
  "\<exists>s. init_registry [''V''] [rule_two_systems] plain_heap = Inr s \<and>
       unique_bands s = [0, 0] \<and> band_names s = [''V'', ''V''] \<and>
       band_systs s = [''Vega'', ''Vega''] \<and>
       systems (heap s (unique_bands s ! 0)) = Some ''Vega''"
  by (simp add: registry_defs rule_two_systems_def plain_heap_def path_band_def)

subsection \<open>C2\<close>

text \<open>
  C2. Claimed: with one entry qualified by instrument and system and one unqualified
  default entry of the same name, in either registration order, a request with the
  matching instrument and system resolves to the qualified entry. The code tries all
  four conditions on an entry before it moves to the next one, and the fourth holds for
  every entry of that name; with the default entry registered first the request
  \<open>(V, X, '', AB)\<close> returns index 0, the default entry.
\<close>

theorem find_band_index_default_first:
  "\<exists>s. init_registry [''V''] [rule_default, rule_qualified] plain_heap = Inr s \<and>
       band_insts s = ['''', ''X''] \<and> band_systs s = ['''', ''AB''] \<and>
       band_bsets s = ['''', ''''] \<and> band_names s = [''V'', ''V''] \<and>
       find_band_index s ''V'' ''X'' '''' ''AB'' = Inr 0"
  by (simp add: registry_defs find_defs rule_default_def rule_qualified_def plain_heap_def
      path_band_def)

subsection \<open>C3\<close>

text \<open>
  C3. Claimed: the raw flux of an observation is the trapezoidal integral with the step
  of that same observation's wavelength grid. \<^verbatim>\<open>self._dxs\<close> is filled with one step per
  observation (in the order of \<^verbatim>\<open>self._band_indices\<close>) but read at the band index:
  \<^verbatim>\<open>self._dxs[bi]\<close> is the step of the grid of observation number \<open>bi\<close>. With the bands
  \<open>A\<close>, \<open>B\<close> (flat curves of integral 10) and the observations \<open>B\<close> (grid \<open>0, 2, 4\<close>) and
  \<open>A\<close> (grid \<open>0, 5, 10\<close>), the steps are \<open>[2, 5]\<close>; the first observation is integrated
  with step 5 and the second with step 2, giving the effective fluxes 1 and 2/5 where
  the steps of their own grids give 2/5 and 1. With the single observation \<open>B\<close> the read
  is out of range and \<^verbatim>\<open>process\<close> raises IndexError.
\<close>

theorem process_step_of_other_observation:
  "band_indices (snd (process unit_constants two_bands two_obs)) = Some [1, 0] \<and>
   dxs (snd (process unit_constants two_bands two_obs)) = Some [2, 5] \<and>
   eff_loop (snd (process unit_constants two_bands two_obs)) two_obs [1, 0] [2, 5] 0
       (arg_luminosities two_obs) = Inr ([Fin 1, Fin (2 / 5)], [Fin 0, Fin 0]) \<and>
   fst (process unit_constants two_bands two_obs) =
     abmag unit_constants (snd (process unit_constants two_bands two_obs))
       [Fin 1, Fin (2 / 5)] [Fin 0, Fin 0] \<and>
   xdiv (Fin (np_trapz_dx [1, 1, 1] (2 - 0))) (Fin 10) = Fin (2 / 5) \<and>
   xdiv (Fin (np_trapz_dx [1, 1, 1] (5 - 0))) (Fin 10) = Fin 1 \<and>
   fst (process unit_constants two_bands obs_B) = Inl IndexError"
  by (simp add: eval_defs two_bands_def two_obs_def obs_B_def unit_constants_def named_band_def
      plain_heap_def path_band_def)

subsection \<open>C4\<close>

text \<open>
  C4. Claimed: grid points outside the curve's wavelength domain contribute nothing to
  the band-weighted flux sum. \<^verbatim>\<open>np.interp\<close> gives such a point the transmission of the
  nearest end of the curve, and its product with the SED sample enters the trapezoidal
  sum like any other: for the band \<open>V\<close> (curve \<open>(1, 0), (2, 1), (4, 1)\<close>, so the
  domain is \<open>[1, 4]\<close>) on the grid \<open>0, 2, 4, 6\<close>, two SEDs that differ only at the grid
  point 6 have different effective fluxes.
\<close>

theorem outside_point_contributes:
  "max_waves one_band ! 0 = 4 \<and> (4::real) < 6 \<and>
   np_interp [0, 2, 4, 6] (band_wavelengths one_band ! 0) (transmissions one_band ! 0) =
     Inr [0, 1, 1, 1] \<and>
   eff_step one_band (one_obs [1, 1, 1, 1]) [0] [2] 0 = Inr (Fin 2, Fin 0) \<and>
   eff_step one_band (one_obs [1, 1, 1, 0]) [0] [2] 0 = Inr (Fin (8 / 5), Fin 0)"
  by (simp add: eval_defs one_band_def one_obs_def named_band_def plain_heap_def path_band_def)

text \<open>
  C4, amended. The interpolation does not extrapolate: every interpolated transmission
  lies between the least and the greatest sample of the curve, a grid point below the
  least wavelength of a curve in increasing order gets the first transmission sample
  and one above the greatest wavelength the last. These values are multiplied with the
  SED samples and all products enter the flux, so a point outside the domain
  contributes the end transmission times its SED sample (nothing only where that
  transmission is zero).
\<close>

theorem interp_clamps_outside_domain:
  assumes "eff_step s kw bis ds li = Inr (F, off)"
    and "wavs = samplewavelengths kw ! (bis ! li)"
    and "xp = band_wavelengths s ! (bis ! li)"
    and "fp = transmissions s ! (bis ! li)"
    and "sorted xp"
  shows "\<exists>itrans.
     np_interp wavs xp fp = Inr itrans \<and> length itrans = length wavs \<and>
     F = xdiv (Fin (np_trapz_dx (map2 (\<lambda>x y. x * y) itrans (seds kw ! li)) (ds ! (bis ! li))))
           (Fin (filter_integrals s ! (bis ! li))) \<and>
     (\<forall>k < length wavs.
        (wavs ! k < Min (set xp) \<longrightarrow> itrans ! k = hd fp) \<and>
        (Max (set xp) < wavs ! k \<longrightarrow> itrans ! k = last fp) \<and>
        Min (set fp) \<le> itrans ! k \<and> itrans ! k \<le> Max (set fp))"
proof -
  from eff_step_Inr [OF assms(1)] obtain itrans where
    i: "np_interp wavs xp fp = Inr itrans" and
    F: "F = xdiv (Fin (np_trapz_dx (map2 (\<lambda>x y. x * y) itrans (seds kw ! li)) (ds ! (bis ! li))))
           (Fin (filter_integrals s ! (bis ! li)))"
    unfolding assms(2,3,4) by blast
  from i have ne: "xp \<noteq> []" and len: "length fp = length xp"
    and it: "itrans = map (\<lambda>x. np_interp1 x xp fp) wavs"
    by (auto simp: np_interp_def split: if_splits)
  note mm = sorted_hd_Min [OF assms(5) ne] sorted_last_Max [OF assms(5) ne]
  have lo: "hd xp \<le> last xp"
    using ne by (simp add: mm)
  have "(wavs ! k < Min (set xp) \<longrightarrow> itrans ! k = hd fp) \<and>
        (Max (set xp) < wavs ! k \<longrightarrow> itrans ! k = last fp) \<and>
        Min (set fp) \<le> itrans ! k \<and> itrans ! k \<le> Max (set fp)" if "k < length wavs" for k
    using that lo np_interp1_range [OF len ne, of "wavs ! k"]
    by (auto simp: it np_interp1_def simp flip: mm)
  with i F it show ?thesis
    by (intro exI [of _ itrans]) simp
qed

theorem interp_clamps_outside_domain_witness:
  "eff_step one_band (one_obs [1, 1, 1, 1]) [0] [2] 0 = Inr (Fin 2, Fin 0) \<and>
   sorted (band_wavelengths one_band ! 0) \<and>
   samplewavelengths (one_obs [1, 1, 1, 1]) ! 0 ! 0 < Min (set (band_wavelengths one_band ! 0)) \<and>
   Max (set (band_wavelengths one_band ! 0)) < samplewavelengths (one_obs [1, 1, 1, 1]) ! 0 ! 3 \<and>
   hd (transmissions one_band ! 0) = 0 \<and> last (transmissions one_band ! 0) = 1 \<and>
   (\<exists>itrans. np_interp [0, 2, 4, 6] [1, 2, 4] [0, 1, 1] = Inr itrans \<and>
      itrans ! 0 = 0 \<and> itrans ! 3 = 1 \<and>
      Fin 2 = xdiv (Fin (np_trapz_dx (map2 (\<lambda>x y. x * y) itrans [1, 1, 1, 1]) 2)) (Fin (5 / 2)))"
proof -
  have e: "eff_step one_band (one_obs [1, 1, 1, 1]) [0] [2] 0 = Inr (Fin 2, Fin 0)"
    by (simp add: eval_defs one_band_def one_obs_def named_band_def plain_heap_def path_band_def)
  have v: "samplewavelengths (one_obs [1, 1, 1, 1]) ! ([0] ! 0) = [0, 2, 4, 6]"
    "band_wavelengths one_band ! ([0] ! 0) = [1, 2, 4]"
    "transmissions one_band ! ([0] ! 0) = [0, 1, 1]"
    "seds (one_obs [1, 1, 1, 1]) ! 0 = [1, 1, 1, 1]"
    "filter_integrals one_band ! ([0] ! 0) = 5 / 2"
    by (simp_all add: one_band_def one_obs_def)
  have s: "sorted (band_wavelengths one_band ! ([0] ! 0))"
    by (simp add: one_band_def)
  from interp_clamps_outside_domain [OF e refl refl refl s]
  obtain itrans where i: "np_interp [0, 2, 4, 6] [1, 2, 4] [0, 1, 1] = Inr itrans"
    "Fin 2 = xdiv (Fin (np_trapz_dx (map2 (\<lambda>x y. x * y) itrans [1, 1, 1, 1]) 2)) (Fin (5 / 2))"
    and k: "\<forall>k<4. ([0, 2, 4, 6 :: real] ! k < Min {1, 2, 4} \<longrightarrow> itrans ! k = 0) \<and>
                (Max {1, 2, 4} < [0, 2, 4, 6 :: real] ! k \<longrightarrow> itrans ! k = 1)"
    unfolding v by auto
  from k have "itrans ! 0 = 0 \<and> itrans ! 3 = 1"
    by (auto dest: spec [of _ 0] spec [of _ 3])
  with i show ?thesis
    using e by (simp add: one_band_def one_obs_def)
qed

subsection \<open>C5\<close>

text \<open>
  C5. With \<^verbatim>\<open>self._dist_const\<close> as \<^verbatim>\<open>process\<close> assigns it for the luminosity distance
  \<open>d\<close> (in Mpc; \<open>d \<cdot> MPC_CGS\<close> is the distance in centimetres), \<^verbatim>\<open>abmag\<close> returns one
  magnitude per pair of an effective flux and an offset and never raises: \<open>+\<infinity>\<close> for a
  flux of zero, and otherwise
  \<open>AB_OFFSET - offset - 2.5 \<cdot> (log10 F - log10(4\<pi>\<cdot>(d \<cdot> MPC_CGS)\<^sup>2))\<close>, which for a positive
  flux, a finite offset and a distance that is not zero is that real number.
\<close>

theorem abmag_formula:
  assumes "dist_const s = Some (xlog10 (Fin (FOUR_PI * (d * MPC_CGS c)\<^sup>2)))"
  shows "\<exists>mags. abmag c s eff_fluxes offsets = Inr mags \<and>
     length mags = min (length eff_fluxes) (length offsets) \<and>
     (\<forall>i < length mags.
        (eff_fluxes ! i = Fin 0 \<longrightarrow> mags ! i = PInf) \<and>
        (eff_fluxes ! i \<noteq> Fin 0 \<longrightarrow>
           mags ! i = xsub (xsub (Fin (AB_OFFSET c)) (offsets ! i))
                        (xmul (Fin (5 / 2))
                           (xsub (xlog10 (eff_fluxes ! i))
                                 (xlog10 (Fin (4 * pi * (d * MPC_CGS c)\<^sup>2)))))) \<and>
        (\<forall>F off. eff_fluxes ! i = Fin F \<and> 0 < F \<and> offsets ! i = Fin off \<and> d * MPC_CGS c \<noteq> 0 \<longrightarrow>
           mags ! i =
             Fin (AB_OFFSET c - off - 5 / 2 * (log 10 F - log 10 (4 * pi * (d * MPC_CGS c)\<^sup>2)))))"
proof -
  let ?dc = "xlog10 (Fin (4 * pi * (d * MPC_CGS c)\<^sup>2))"
  from assms have dc: "dist_const s = Some ?dc"
    by (simp add: FOUR_PI_def)
  from map_err_total [of "zip eff_fluxes offsets" "abmag1 c s"] abmag1_total [OF dc]
  obtain mags where m: "abmag c s eff_fluxes offsets = Inr mags"
    unfolding abmag_def by blast
  then have len: "length mags = min (length eff_fluxes) (length offsets)"
    unfolding abmag_def by (auto dest: map_err_length)
  have el: "abmag1 c s (eff_fluxes ! i, offsets ! i) = Inr (mags ! i)" if "i < length mags" for i
    using map_err_nth [of "abmag1 c s" "zip eff_fluxes offsets" mags i] m that len
    by (simp add: abmag_def)
  have pos: "0 < 4 * pi * (d * MPC_CGS c)\<^sup>2" if "d * MPC_CGS c \<noteq> 0"
    using that by simp
  have "(eff_fluxes ! i = Fin 0 \<longrightarrow> mags ! i = PInf) \<and>
        (eff_fluxes ! i \<noteq> Fin 0 \<longrightarrow>
           mags ! i = xsub (xsub (Fin (AB_OFFSET c)) (offsets ! i))
                        (xmul (Fin (5 / 2)) (xsub (xlog10 (eff_fluxes ! i)) ?dc))) \<and>
        (\<forall>F off. eff_fluxes ! i = Fin F \<and> 0 < F \<and> offsets ! i = Fin off \<and> d * MPC_CGS c \<noteq> 0 \<longrightarrow>
           mags ! i =
             Fin (AB_OFFSET c - off - 5 / 2 * (log 10 F - log 10 (4 * pi * (d * MPC_CGS c)\<^sup>2))))"
    if "i < length mags" for i
    using el [OF that] pos
    by (auto simp: abmag1_def dc MAG_FAC_def simp del: xlog10.simps)
      (simp_all add: pos)
  with m len show ?thesis by blast
qed

theorem abmag_formula_witness:
  "dist_const (snd (process unit_constants one_band (one_obs [1, 1, 1, 1]))) =
     Some (xlog10 (Fin (FOUR_PI * (1 * MPC_CGS unit_constants)\<^sup>2))) \<and>
   (1::real) * MPC_CGS unit_constants \<noteq> 0 \<and>
   abmag unit_constants (snd (process unit_constants one_band (one_obs [1, 1, 1, 1])))
     [Fin 0, Fin 1] [Fin 0, Fin 0] =
     Inr [PInf, Fin (0 - 0 - 5 / 2 * (log 10 1 - log 10 (4 * pi * (1 * 1)\<^sup>2)))]"
proof -
  let ?s = "snd (process unit_constants one_band (one_obs [1, 1, 1, 1]))"
  have d: "dist_const ?s = Some (xlog10 (Fin (FOUR_PI * (1 * MPC_CGS unit_constants)\<^sup>2)))"
    by (simp add: eval_defs unit_constants_def one_band_def one_obs_def named_band_def plain_heap_def path_band_def)
  from abmag_formula [OF d, of "[Fin 0, Fin 1]" "[Fin 0, Fin 0]"]
  obtain mags where m: "abmag unit_constants ?s [Fin 0, Fin 1] [Fin 0, Fin 0] = Inr mags"
    "length mags = 2" "mags ! 0 = PInf"
    "mags ! 1 = Fin (0 - 0 - 5 / 2 * (log 10 1 - log 10 (4 * pi * (1 * 1)\<^sup>2)))"
    by (auto simp: unit_constants_def)
  then have "mags = [PInf, Fin (0 - 0 - 5 / 2 * (log 10 1 - log 10 (4 * pi * (1 * 1)\<^sup>2)))]"
    by (intro nth_equalityI) (auto simp: less_Suc_eq numeral_2_eq_2)
  with m(1) d show ?thesis
    by (simp add: unit_constants_def)
qed

subsection \<open>C6\<close>

text \<open>
  C6. Claimed: \<^verbatim>\<open>find_band_index\<close> raises a resolution error exactly when no entry of the
  registry satisfies any of the four tiers for the request. The fourth condition of the
  loop, meant for the entry that is the unqualified default, tests
  \<^verbatim>\<open>'' in self._band_insts[bi]\<close> (and likewise the bandset and the system) on the
  entry's strings, and the empty string occurs in every string: the condition holds for
  every entry of the requested name. With the registry of the one rule
  \<^verbatim>\<open>{"systems": ["AB"], "instruments": ["X"], "filters": {"V": ...}}\<close>, whose only entry
  is \<open>V\<close> of instrument \<open>X\<close> in the system \<open>AB\<close>, the request \<open>(V, Y, '', Vega)\<close> satisfies
  no tier at that entry (\<open>Y\<close> does not occur in \<open>X\<close>, \<open>Vega\<close> does not occur in \<open>AB\<close>, and
  the entry is not the unqualified default), and the function returns index 0 where the
  claim has it raise.
\<close>

theorem find_band_index_returns_without_tier:
  "\<exists>s. init_registry [''V''] [rule_qualified] plain_heap = Inr s \<and>
       length (unique_bands s) = 1 \<and> band_names s = [''V''] \<and> entry_name s 0 = ''V'' \<and>
       band_insts s = [''X''] \<and> band_bsets s = [''''] \<and> band_systs s = [''AB''] \<and>
       \<not> str_in ''Y'' ''X'' \<and> \<not> str_in ''Vega'' ''AB'' \<and>
       \<not> tier1 s 0 ''V'' ''Y'' '''' ''Vega'' \<and> \<not> tier2 s 0 ''V'' ''Y'' ''Vega'' \<and>
       \<not> tier3 s 0 ''V'' ''Vega'' \<and> \<not> tier4 s 0 ''V'' \<and>
       \<not> any_tier s 0 ''V'' ''Y'' '''' ''Vega'' \<and>
       cond4 s 0 (unique_bands s ! 0) ''V'' = Inr True \<and>
       find_band_index s ''V'' ''Y'' '''' ''Vega'' = Inr 0"
  by (simp add: registry_defs find_defs entry_name_def any_tier_def tier1_def tier2_def tier3_def
      tier4_def rule_qualified_def plain_heap_def path_band_def)

subsection \<open>C7\<close>

text \<open>
  C7. After \<^verbatim>\<open>__init__\<close>, the offset of every band of the registry follows the
  three-way priority: the configured offset when the dictionary has one; otherwise,
  for a catalog (SVO) source, 0 when the native system is AB and
  \<open>2.5 \<cdot> log10(ABflux / nativeflux)\<close> when it is not, the two fluxes being the
  (positive) \<^verbatim>\<open>ZeroPoint\<close> values of the AB and of the native VOTable; otherwise 0.
\<close>

theorem init_offset_priority:
  assumes "init bs filterrules h0 fs = Inr (s, fs')" and "i < n_bands s"
  shows "(\<forall>off. offset (heap s (unique_bands s ! i)) = Some off \<longrightarrow>
            band_offsets s ! i = Fin off) \<and>
         (\<forall>svo. offset (heap s (unique_bands s ! i)) = None \<and>
            SVO (heap s (unique_bands s ! i)) = Some svo \<and> last (split_slash svo) = ''AB'' \<longrightarrow>
            band_offsets s ! i = Fin 0) \<and>
         (\<forall>svo va vn. offset (heap s (unique_bands s ! i)) = None \<and>
            SVO (heap s (unique_bands s ! i)) = Some svo \<and> last (split_slash svo) \<noteq> ''AB'' \<and>
            xml_files fs (xml_name (svopath svo ''AB'')) = Some va \<and>
            xml_files fs (xml_name (svopath svo (last (split_slash svo)))) = Some vn \<and>
            0 < hd (zeropoints va) \<and> 0 < last (zeropoints vn) \<and>
            zeropoints va \<noteq> [] \<and> zeropoints vn \<noteq> [] \<longrightarrow>
            band_offsets s ! i =
              Fin (5 / 2 * log 10 (hd (zeropoints va) / last (zeropoints vn)))) \<and>
         (offset (heap s (unique_bands s ! i)) = None \<and>
            SVO (heap s (unique_bands s ! i)) = None \<longrightarrow> band_offsets s ! i = Fin 0)"
proof -
  let ?b = "heap s (unique_bands s ! i)"
  from init_loaded(1) [OF assms] obtain fsa rows zps fsb
    where x: "xml_files fsa = xml_files fs" and lb: "load_band fsa ?b = Inr (rows, zps, fsb)"
      and e: "entry s i = entry_of ?b rows zps"
    unfolding loaded_def by blast
  from e have o: "band_offsets s ! i = resolved_offset ?b zps"
    by (simp add: entry_def entry_of_def)
  have 1: "band_offsets s ! i = Fin off" if "offset ?b = Some off" for off
    using that by (simp add: o resolved_offset_def)
  have 2: "band_offsets s ! i = Fin 0"
    if "offset ?b = None \<and> SVO ?b = Some svo \<and> last (split_slash svo) = ''AB''" for svo
    using that load_band_zps_AB [OF lb, of svo] by (simp add: o resolved_offset_def)
  have 3: "band_offsets s ! i = Fin (5 / 2 * log 10 (hd (zeropoints va) / last (zeropoints vn)))"
    if h: "offset ?b = None \<and> SVO ?b = Some svo \<and> last (split_slash svo) \<noteq> ''AB'' \<and>
            xml_files fs (xml_name (svopath svo ''AB'')) = Some va \<and>
            xml_files fs (xml_name (svopath svo (last (split_slash svo)))) = Some vn \<and>
            0 < hd (zeropoints va) \<and> 0 < last (zeropoints vn) \<and>
            zeropoints va \<noteq> [] \<and> zeropoints vn \<noteq> []" for svo va vn
  proof -
    from h have "last zps = xmul (Fin (5 / 2))
        (xlog10 (xdiv (Fin (hd (zeropoints va))) (Fin (last (zeropoints vn)))))"
      unfolding x [symmetric]
      by (elim conjE, intro load_band_zps_native [OF lb]) assumption+
    with h show ?thesis
      by (simp add: o resolved_offset_def xlog10_ratio)
  qed
  have 4: "band_offsets s ! i = Fin 0" if "offset ?b = None \<and> SVO ?b = None"
    using that by (simp add: o resolved_offset_def)
  from 1 2 3 4 show ?thesis by blast
qed

theorem init_offset_priority_witness:
  "\<exists>s fs'. init [''''] [rule_catalog] catalog_heap catalog_files = Inr (s, fs') \<and> n_bands s = 4 \<and>
      offset (heap s (unique_bands s ! 0)) = Some (1 / 2) \<and> band_offsets s ! 0 = Fin (1 / 2) \<and>
      offset (heap s (unique_bands s ! 1)) = None \<and>
      SVO (heap s (unique_bands s ! 1)) = Some ''F/B/AB'' \<and>
      last (split_slash ''F/B/AB'') = ''AB'' \<and> band_offsets s ! 1 = Fin 0 \<and>
      offset (heap s (unique_bands s ! 2)) = None \<and>
      SVO (heap s (unique_bands s ! 2)) = Some ''F/V/Vega'' \<and>
      last (split_slash ''F/V/Vega'') = ''Vega'' \<and>
      xml_name (svopath ''F/V/Vega'' ''AB'') = ''F_V_AB.xml'' \<and>
      xml_name (svopath ''F/V/Vega'' ''Vega'') = ''F_V_Vega.xml'' \<and>
      band_offsets s ! 2 = Fin (5 / 2) \<and>
      offset (heap s (unique_bands s ! 3)) = None \<and> SVO (heap s (unique_bands s ! 3)) = None \<and>
      band_offsets s ! 3 = Fin 0"
proof -
  have "\<exists>s fs'. init [''''] [rule_catalog] catalog_heap catalog_files = Inr (s, fs') \<and>
      n_bands s = 4 \<and>
      offset (heap s (unique_bands s ! 0)) = Some (1 / 2) \<and>
      offset (heap s (unique_bands s ! 1)) = None \<and>
      SVO (heap s (unique_bands s ! 1)) = Some ''F/B/AB'' \<and>
      offset (heap s (unique_bands s ! 2)) = None \<and>
      SVO (heap s (unique_bands s ! 2)) = Some ''F/V/Vega'' \<and>
      offset (heap s (unique_bands s ! 3)) = None \<and> SVO (heap s (unique_bands s ! 3)) = None"
    by (simp add: registry_defs load_defs catalog_files_def catalog_heap_def catalog_band_def
        rule_catalog_def path_band_def)
  then obtain s fs' where s: "init [''''] [rule_catalog] catalog_heap catalog_files = Inr (s, fs')"
    and n: "n_bands s = 4"
    and b0: "offset (heap s (unique_bands s ! 0)) = Some (1 / 2)"
    and b1: "offset (heap s (unique_bands s ! 1)) = None"
      "SVO (heap s (unique_bands s ! 1)) = Some ''F/B/AB''"
    and b2: "offset (heap s (unique_bands s ! 2)) = None"
      "SVO (heap s (unique_bands s ! 2)) = Some ''F/V/Vega''"
    and b3: "offset (heap s (unique_bands s ! 3)) = None" "SVO (heap s (unique_bands s ! 3)) = None"
    by blast
  have p: "last (split_slash ''F/B/AB'') = ''AB''" "last (split_slash ''F/V/Vega'') = ''Vega''"
    "xml_name (svopath ''F/V/Vega'' ''AB'') = ''F_V_AB.xml''"
    "xml_name (svopath ''F/V/Vega'' ''Vega'') = ''F_V_Vega.xml''"
    by (simp_all add: load_defs)
  have o0: "band_offsets s ! 0 = Fin (1 / 2)"
    using init_offset_priority [OF s, of 0] n b0 by simp
  have o1: "band_offsets s ! 1 = Fin 0"
    using init_offset_priority [OF s, of 1] n b1 p(1) by simp
  have "band_offsets s ! 2 = Fin (5 / 2 * log 10 (100 / 10))"
    using init_offset_priority [OF s, of 2] n b2 p by (simp add: catalog_files_def)
  then have o2: "band_offsets s ! 2 = Fin (5 / 2)" by simp
  have o3: "band_offsets s ! 3 = Fin 0"
    using init_offset_priority [OF s, of 3] n b3 by simp
  from s n b0 b1 b2 b3 p o0 o1 o2 o3 show ?thesis by blast
qed

subsection \<open>C8\<close>

text \<open>
  C8. After \<^verbatim>\<open>__init__\<close>, for every band of the registry the stored integral is the
  trapezoidal area under the band's own wavelength and transmission samples (which are
  as many, and at least one), and the stored minimum and maximum wavelengths are the
  least and the greatest of its wavelength samples, that is, the first and the last
  element of the sorted samples.
\<close>

theorem init_integral_and_range:
  assumes "init bs filterrules h0 fs = Inr (s, fs')" and "i < n_bands s"
  shows "band_wavelengths s ! i \<noteq> [] \<and>
     length (transmissions s ! i) = length (band_wavelengths s ! i) \<and>
     filter_integrals s ! i = trapezoid_area (band_wavelengths s ! i) (transmissions s ! i) \<and>
     min_waves s ! i = Min (set (band_wavelengths s ! i)) \<and>
     max_waves s ! i = Max (set (band_wavelengths s ! i)) \<and>
     min_waves s ! i = hd (sort (band_wavelengths s ! i)) \<and>
     max_waves s ! i = last (sort (band_wavelengths s ! i))"
proof -
  from init_loaded(1) [OF assms] obtain rows zps b
    where n: "n_columns rows = 2" and e: "entry s i = entry_of b rows zps"
    unfolding loaded_def by blast
  let ?ws = "map (\<lambda>r. r ! 0) rows" and ?ts = "map (\<lambda>r. r ! 1) rows"
  from e have f: "band_wavelengths s ! i = ?ws" "transmissions s ! i = ?ts"
    "min_waves s ! i = Min (set ?ws)" "max_waves s ! i = Max (set ?ws)"
    "filter_integrals s ! i = np_trapz ?ts ?ws"
    by (simp_all add: entry_def entry_of_def)
  from n have ne: "?ws \<noteq> []"
    using n_columns_two by simp
  have t: "np_trapz ?ts ?ws = trapezoid_area ?ws ?ts"
    by (rule np_trapz_area) simp
  have l: "length ?ts = length ?ws" by simp
  show ?thesis
    unfolding f hd_sort_Min [OF ne] last_sort_Max [OF ne]
    by (intro conjI refl ne l t)
qed

theorem init_integral_and_range_witness:
  "\<exists>s fs'. init [''V''] [rule_default] plain_heap curve_files = Inr (s, fs') \<and> 0 < n_bands s \<and>
      band_wavelengths s ! 0 = [1, 2, 4] \<and> transmissions s ! 0 = [0, 1, 1] \<and>
      filter_integrals s ! 0 = 5 / 2 \<and>
      trapezoid_area (band_wavelengths s ! 0) (transmissions s ! 0) = 5 / 2 \<and>
      min_waves s ! 0 = 1 \<and> max_waves s ! 0 = 4 \<and>
      hd (sort (band_wavelengths s ! 0)) = 1 \<and> last (sort (band_wavelengths s ! 0)) = 4"
proof -
  have "\<exists>s fs'. init [''V''] [rule_default] plain_heap curve_files = Inr (s, fs') \<and> 0 < n_bands s \<and>
      band_wavelengths s ! 0 = [1, 2, 4] \<and> transmissions s ! 0 = [0, 1, 1] \<and>
      filter_integrals s ! 0 = 5 / 2 \<and> min_waves s ! 0 = 1 \<and> max_waves s ! 0 = 4"
    by (simp add: registry_defs load_defs curve_files_def rule_default_def plain_heap_def
        path_band_def)
  then obtain s fs' where s: "init [''V''] [rule_default] plain_heap curve_files = Inr (s, fs')"
    "0 < n_bands s" "band_wavelengths s ! 0 = [1, 2, 4]" "transmissions s ! 0 = [0, 1, 1]"
    "filter_integrals s ! 0 = 5 / 2" "min_waves s ! 0 = 1" "max_waves s ! 0 = 4"
    by blast
  from init_integral_and_range [OF s(1,2)] s show ?thesis
    by (intro exI [of _ s] exI [of _ fs']) simp
qed

subsection \<open>C9\<close>

text \<open>
  C9. Claimed: \<^verbatim>\<open>process\<close> leaves every registry field unchanged and its only effect
  is returning the magnitude sequence. The first half holds; but the function also
  assigns eight attributes of the object, among them \<^verbatim>\<open>self._dist_const\<close>, which
  \<^verbatim>\<open>abmag\<close> reads: after a call on the one-band object they hold the batch's values where
  they were unset before.
\<close>

theorem process_assigns_attributes:
  "bands one_band = None \<and> dist_const one_band = None \<and> dxs one_band = None \<and>
   bands (snd (process unit_constants one_band (one_obs [1, 1, 1, 1]))) = Some [''V''] \<and>
   dist_const (snd (process unit_constants one_band (one_obs [1, 1, 1, 1]))) =
     Some (Fin (log 10 (4 * pi))) \<and>
   dxs (snd (process unit_constants one_band (one_obs [1, 1, 1, 1]))) = Some [2] \<and>
   snd (process unit_constants one_band (one_obs [1, 1, 1, 1])) \<noteq> one_band"
proof -
  let ?s = "snd (process unit_constants one_band (one_obs [1, 1, 1, 1]))"
  have a: "bands one_band = None" "dist_const one_band = None" "dxs one_band = None"
    by (simp_all add: one_band_def)
  have b: "bands ?s = Some [''V'']" "dist_const ?s = Some (Fin (log 10 (4 * pi)))"
    "dxs ?s = Some [2]"
    by (simp_all add: eval_defs unit_constants_def one_band_def one_obs_def named_band_def plain_heap_def path_band_def)
  from a(1) b(1) have "?s \<noteq> one_band" by auto
  with a b show ?thesis by simp
qed

text \<open>
  C9, amended. For every batch, whether \<^verbatim>\<open>process\<close> returns or raises, the registry
  fields (the band definitions, the wavelength and transmission sequences, the minimum
  and maximum wavelengths, the filter integrals and the offsets) are the same before
  and after the call; besides returning the magnitude sequence, the call assigns only
  the attributes \<^verbatim>\<open>_bands\<close>, \<^verbatim>\<open>_band_indices\<close>, \<^verbatim>\<open>_dxs\<close>, \<^verbatim>\<open>_dist_const\<close>,
  \<^verbatim>\<open>_luminosities\<close>, \<^verbatim>\<open>_systems\<close>, \<^verbatim>\<open>_instruments\<close> and \<^verbatim>\<open>_bandsets\<close>.
\<close>

theorem process_keeps_registry:
  "registry (snd (process c s kw)) = registry s \<and>
   (\<exists>b bi d dc l sy ins bs.
      snd (process c s kw) =
        s\<lparr>bands := b, band_indices := bi, dxs := d, dist_const := dc, luminosities := l,
          kw_systems := sy, kw_instruments := ins, kw_bandsets := bs\<rparr>)"
proof -
  have *: "\<exists>b bi d dc l sy ins bs.
      snd (process c s kw) =
        s\<lparr>bands := b, band_indices := bi, dxs := d, dist_const := dc, luminosities := l,
          kw_systems := sy, kw_instruments := ins, kw_bandsets := bs\<rparr>"
  proof (cases "map_err (\<lambda>b. find_band_index (s\<lparr>bands := Some (all_bands kw)\<rparr>) b [] [] [])
                  (all_bands kw)")
    case (Inl e)
    then have "snd (process c s kw) =
        s\<lparr>bands := Some (all_bands kw), band_indices := band_indices s, dxs := dxs s,
          dist_const := dist_const s, luminosities := luminosities s,
          kw_systems := kw_systems s, kw_instruments := kw_instruments s,
          kw_bandsets := kw_bandsets s\<rparr>"
      by (simp add: process_def Let_def)
    then show ?thesis by blast
  next
    case (Inr bis)
    obtain err ds where d: "dxs_loop (samplewavelengths kw) bis [] = (err, ds)"
      by (cases "dxs_loop (samplewavelengths kw) bis []")
    show ?thesis
    proof (cases err)
      case None
      with Inr d have "snd (process c s kw) =
        s\<lparr>bands := Some (all_bands kw), band_indices := Some bis, dxs := Some ds,
          dist_const := Some (xlog10 (Fin (FOUR_PI * (lumdist kw * MPC_CGS c)\<^sup>2))),
          luminosities := Some (arg_luminosities kw),
          kw_systems := Some (arg_systems kw), kw_instruments := Some (arg_instruments kw),
          kw_bandsets := Some (arg_bandsets kw)\<rparr>"
        by (simp add: process_def Let_def del: xlog10.simps)
      then show ?thesis by blast
    next
      case (Some e)
      with Inr d have "snd (process c s kw) =
        s\<lparr>bands := Some (all_bands kw), band_indices := Some bis, dxs := Some ds,
          dist_const := dist_const s, luminosities := luminosities s,
          kw_systems := kw_systems s, kw_instruments := kw_instruments s,
          kw_bandsets := kw_bandsets s\<rparr>"
        by (simp add: process_def Let_def)
      then show ?thesis by blast
    qed
  qed
  then obtain b bi d dc l sy ins bs where
    "snd (process c s kw) =
        s\<lparr>bands := b, band_indices := bi, dxs := d, dist_const := dc, luminosities := l,
          kw_systems := sy, kw_instruments := ins, kw_bandsets := bs\<rparr>"
    by blast
  then have "registry (snd (process c s kw)) = registry s"
    by (simp add: registry_def)
  with * show ?thesis by blast
qed

subsection \<open>C10\<close>

text \<open>
  C10. Claimed: with at least one positive luminosity, every returned radius from the
  first accretion time on is at least \<^verbatim>\<open>rphotmin\<close>. The assignment
  \<^verbatim>\<open>rphot2[rphot2 < rphotmin] = rphotmin\<close> replaces only the elements that compare
  below \<^verbatim>\<open>rphotmin\<close>, and NaN does not: with the luminosities \<open>1, -1\<close> and the exponent
  1/2 the power law of the second element is the square root of a negative number, and
  the returned radii are \<open>6\<close> (the minimum) and NaN, which is not at least 6.
\<close>

theorem tde_radius_nan:
  "r_isco unit_tde (bhmass negative_after) = 6 \<and>
   ilumzero (tde_luminosities negative_after) = 1 \<and>
   radiusphot unit_tde negative_after = Inr [Fin 6, NaN] \<and>
   \<not> at_least ([Fin 6, NaN] ! 1) 6"
proof -
  have r: "r_isco unit_tde 1 = 6"
    by (simp add: r_isco_def unit_tde_def)
  have a: "semi_major unit_tde 1 0 1 = Fin ((1 / pi\<^sup>2) powr (1 / 3))"
    by (simp add: semi_major_def xpow_def unit_tde_def power_divide)
  have l: "0 < Ledd unit_tde 1"
    by (intro Ledd_pos) (simp_all add: unit_tde_def)
  have "power_law (10 powr 0) (semi_major unit_tde 1 0 1) (Ledd unit_tde 1) (1 / 2) (- 1) = NaN"
    unfolding a using l by (intro power_law_negative) simp_all
  then have "radiusphot unit_tde negative_after = Inr [Fin 6, NaN]"
    by (simp add: tde_defs ilumzero_def negative_after_def r clamp_below_def)
  then show ?thesis
    by (simp add: r negative_after_def ilumzero_def at_least_def)
qed

text \<open>
  C10, amended. Whenever the function returns (the speed of light \<^verbatim>\<open>C_CGS\<close> not being
  zero, so that \<^verbatim>\<open>r_isco\<close> is a number), there is one radius per luminosity and
  every returned radius is at least \<^verbatim>\<open>rphotmin\<close> (the radius \<^verbatim>\<open>r_isco\<close>) or is NaN;
  none is NaN, so every one is at least \<^verbatim>\<open>rphotmin\<close>, when the constants and the
  black-hole mass are positive and no luminosity is negative. The radii are
  \<^verbatim>\<open>rphotmin\<close> for the first \<^verbatim>\<open>ilumzero\<close> entries, followed by the power-law values of
  the remaining luminosities clamped from below: the lower clamp is assigned, and the
  upper clamp against \<^verbatim>\<open>rphotmax\<close> is not, so \<^verbatim>\<open>rphotmax\<close> does not enter the result.
\<close>

theorem tde_radius_lower_clamp:
  assumes "radiusphot c kw = Inr rphot" and "C_CGS c \<noteq> 0"
  shows "length rphot = length (tde_luminosities kw) \<and>
     (\<forall>i < length rphot. rphot ! i = NaN \<or> at_least (rphot ! i) (r_isco c (bhmass kw))) \<and>
     (0 < G_CGS c \<and> 0 < M_SUN_CGS c \<and> 0 < C_CGS c \<and> 0 < bhmass kw \<and>
      list_all (\<lambda>L. 0 \<le> L) (tde_luminosities kw) \<longrightarrow>
        (\<forall>i < length rphot. at_least (rphot ! i) (r_isco c (bhmass kw)))) \<and>
     rphot =
       replicate (ilumzero (tde_luminosities kw)) (Fin (r_isco c (bhmass kw))) @
       map (\<lambda>L. clamp_below (r_isco c (bhmass kw))
                  (power_law (10 powr Rph0 kw)
                     (semi_major c (bhmass kw)
                        (rest_times kw !
                           argmax_scan (tl (tde_luminosities kw)) 1 0 (hd (tde_luminosities kw)))
                        (rest_times kw ! ilumzero (tde_luminosities kw)))
                     (Ledd c (bhmass kw)) (lphoto kw) L))
           (drop (ilumzero (tde_luminosities kw)) (tde_luminosities kw))"
proof -
  let ?lums = "tde_luminosities kw" and ?m = "r_isco c (bhmass kw)"
  let ?n = "ilumzero ?lums"
  let ?ap = "semi_major c (bhmass kw)
               (rest_times kw ! argmax_scan (tl ?lums) 1 0 (hd ?lums)) (rest_times kw ! ?n)"
  let ?pl = "power_law (10 powr Rph0 kw) ?ap (Ledd c (bhmass kw)) (lphoto kw)"
  note cf = radiusphot_closed_form [OF assms(1)]
  have len: "length rphot = length ?lums"
    using ilumzero_le [of ?lums] by (subst cf) simp
  have el: "rphot ! i = (if i < ?n then Fin ?m else clamp_below ?m (?pl (?lums ! i)))"
    if "i < length rphot" for i
    using that len by (subst cf) (auto simp: nth_append)
  have 1: "rphot ! i = NaN \<or> at_least (rphot ! i) ?m" if "i < length rphot" for i
    using clamp_below_at_least [of ?m "?pl (?lums ! i)"]
    by (simp add: el [OF that] at_least_def)
  have 2: "at_least (rphot ! i) ?m"
    if i: "i < length rphot"
      and pos: "0 < G_CGS c \<and> 0 < M_SUN_CGS c \<and> 0 < C_CGS c \<and> 0 < bhmass kw \<and>
        list_all (\<lambda>L. 0 \<le> L) ?lums" for i
  proof -
    from pos have "0 \<le> G_CGS c * bhmass kw * M_SUN_CGS c" by simp
    from semi_major_nonneg [OF this] obtain a where a: "0 \<le> a" "?ap = Fin a"
      by blast
    from pos i len have "0 \<le> ?lums ! i"
      by (simp add: list_all_length)
    with a pos have "?pl (?lums ! i) \<noteq> NaN"
      using power_law_number [of "10 powr Rph0 kw" a "Ledd c (bhmass kw)" "?lums ! i" "lphoto kw"]
        Ledd_pos [of c "bhmass kw"]
      by simp
    then show ?thesis
      using clamp_below_number [of "?pl (?lums ! i)" ?m]
      by (simp add: el [OF i] at_least_def)
  qed
  from len 1 2 cf show ?thesis by blast
qed

theorem tde_radius_lower_clamp_witness:
  "\<exists>rphot. radiusphot unit_tde rising = Inr rphot \<and>
     0 < G_CGS unit_tde \<and> 0 < M_SUN_CGS unit_tde \<and> 0 < C_CGS unit_tde \<and> 0 < bhmass rising \<and>
     list_all (\<lambda>L. 0 \<le> L) (tde_luminosities rising) \<and>
     ilumzero (tde_luminosities rising) = 1 \<and> r_isco unit_tde (bhmass rising) = 6 \<and>
     length rphot = 3 \<and> rphot ! 0 = Fin 6 \<and> at_least (rphot ! 1) 6 \<and> at_least (rphot ! 2) 6 \<and>
     map (xmul (Fin 2)) (map (\<lambda>t. semi_major unit_tde 1 t 1) (drop 1 (rest_times rising))) ! 0 =
       Fin 0"
proof -
  have e: "\<exists>rphot. radiusphot unit_tde rising = Inr rphot"
    by (simp add: tde_defs ilumzero_def rising_def)
  then obtain rphot where r: "radiusphot unit_tde rising = Inr rphot" by blast
  have h: "0 < G_CGS unit_tde \<and> 0 < M_SUN_CGS unit_tde \<and> 0 < C_CGS unit_tde \<and>
      0 < bhmass rising \<and> list_all (\<lambda>L. 0 \<le> L) (tde_luminosities rising)"
    by (simp add: unit_tde_def rising_def)
  have v: "ilumzero (tde_luminosities rising) = 1" "r_isco unit_tde (bhmass rising) = 6"
    "length (tde_luminosities rising) = 3"
    by (simp_all add: ilumzero_def rising_def r_isco_def unit_tde_def)
  have m: "map (xmul (Fin 2)) (map (\<lambda>t. semi_major unit_tde 1 t 1) (drop 1 (rest_times rising))) ! 0
      = Fin 0"
    by (simp add: rising_def semi_major_def xpow_def)
  have cne: "C_CGS unit_tde \<noteq> 0"
    by (simp add: unit_tde_def)
  note t = tde_radius_lower_clamp [OF r cne, unfolded v]
  from t have l: "length rphot = 3" by blast
  from t h have a: "\<forall>i<length rphot. at_least (rphot ! i) 6" by blast
  from t obtain rest where "rphot = replicate 1 (Fin 6) @ rest" by blast
  then have z: "rphot ! 0 = Fin 6" by simp
  from a l have "at_least (rphot ! 1) 6" "at_least (rphot ! 2) 6" by simp_all
  with r h v m l z show ?thesis
    by (intro exI [of _ rphot]) simp
qed

end
